theory Spec2Isabelle
  imports Main "HOL-Library.Word"
begin

unbundle bit_operations_syntax

section \<open>Data model of ProfileDTO.pb.go\<close>

text \<open>
  The generated Go file declares five message structs.  Every optional or required
  scalar is a pointer field (\<open>*string\<close>, \<open>*int32\<close>, \<open>*float32\<close>, \<open>*bool\<close>, an enum
  pointer): \<open>nil\<close> is \<open>None\<close>, a pointer to a value is \<open>Some\<close>.  A Go \<open>string\<close> is a
  sequence of bytes, here a \<open>string\<close>.  \<open>int32\<close> and the two enum types (declared as
  \<open>int32\<close> in a sibling file) are 32-bit words; a \<open>float32\<close> is carried as its IEEE-754
  bit pattern (what \<open>math.Float32bits\<close> gives), also a 32-bit word, with \<open>0\<close> the
  pattern of \<open>+0.0\<close>.  A slice is a list; a \<open>nil\<close> slice and an empty one are both
  \<open>[]\<close>, and the elements of a slice of message pointers are taken non-nil.
  The messages \<open>EntityDTO_EntityProperty\<close> and \<open>ContextData\<close> are declared in sibling
  files; they are the type parameters \<open>'p\<close> and \<open>'c\<close>.
\<close>

type_synonym byte = "8 word"
type_synonym int32 = "32 word"
type_synonym float32 = "32 word"
type_synonym EntityDTO_EntityType = int32
type_synonym CommodityDTO_CommodityType = int32

record EntityProfileDTO_VMProfileDTO =
  NumVCPUs :: "int32 option"
  VCPUSpeed :: "float32 option"
  NumStorageConsumed :: "int32 option"
  XXX_unrecognized :: "byte list"

record EntityProfileDTO_PMProfileDTO =
  NumCores :: "int32 option"
  CpuCoreSpeed :: "float32 option"
  XXX_unrecognized :: "byte list"

record CommodityProfileDTO =
  CommodityType :: "CommodityDTO_CommodityType option"
  Capacity :: "float32 option"
  ConsumedFactor :: "float32 option"
  Consumed :: "float32 option"
  Reservation :: "float32 option"
  Overhead :: "float32 option"
  XXX_unrecognized :: "byte list"

text \<open>
  The two wrapper structs of the oneof, each holding a pointer to its payload message.
\<close>

record EntityProfileDTO_VmProfileDTO =
  VmProfileDTO :: "EntityProfileDTO_VMProfileDTO option"

record EntityProfileDTO_PmProfileDTO =
  PmProfileDTO :: "EntityProfileDTO_PMProfileDTO option"

text \<open>
  A non-nil value of the interface \<open>isEntityProfileDTO_VMOrPMProfileData\<close>: a pointer
  to one of the two wrappers (the pointer itself may be nil), or a value of some other
  dynamic type, of which only the type's name matters (it is what \<open>%T\<close> prints).
  The nil interface is \<open>None\<close> at the field.
\<close>

datatype isEntityProfileDTO_VMOrPMProfileData =
    Vm_ptr "EntityProfileDTO_VmProfileDTO option"
  | Pm_ptr "EntityProfileDTO_PmProfileDTO option"
  | Other_type string

record 'p EntityProfileDTO =
  Id :: "string option"
  DisplayName :: "string option"
  EntityType :: "EntityDTO_EntityType option"
  CommodityProfile :: "CommodityProfileDTO list"
  Model :: "string option"
  Vendor :: "string option"
  Description :: "string option"
  VMOrPMProfileData :: "isEntityProfileDTO_VMOrPMProfileData option"
  EnableProvisionMatch :: "bool option"
  EnableResizeMatch :: "bool option"
  EntityProperties :: "'p list"
  XXX_unrecognized :: "byte list"

record 'c DeploymentProfileDTO =
  Id :: "string option"
  ProfileName :: "string option"
  ContextData :: "'c list"
  RelatedEntityProfileId :: "string list"
  RelatedScopeId :: "string list"
  XXX_unrecognized :: "byte list"

section \<open>Getters\<close>

text \<open>
  Every getter takes the receiver \<open>m\<close>, a message pointer that may be nil (\<open>None\<close>).
  The enum constants \<open>EntityDTO_SWITCH\<close> and \<open>CommodityDTO_CLUSTER\<close> are declared in
  a sibling file; the two getters that return them take them as their first argument.
\<close>

definition GetVMOrPMProfileData ::
  "'p EntityProfileDTO option \<Rightarrow> isEntityProfileDTO_VMOrPMProfileData option" where
  "GetVMOrPMProfileData m =
     (case m of Some x \<Rightarrow> VMOrPMProfileData x | None \<Rightarrow> None)"

definition GetId :: "'p EntityProfileDTO option \<Rightarrow> string" where
  "GetId m =
     (case m of
        Some x \<Rightarrow> (case EntityProfileDTO.Id x of Some v \<Rightarrow> v | None \<Rightarrow> [])
      | None \<Rightarrow> [])"

definition GetDisplayName :: "'p EntityProfileDTO option \<Rightarrow> string" where
  "GetDisplayName m =
     (case m of
        Some x \<Rightarrow> (case DisplayName x of Some v \<Rightarrow> v | None \<Rightarrow> [])
      | None \<Rightarrow> [])"

definition GetEntityType ::
  "EntityDTO_EntityType \<Rightarrow> 'p EntityProfileDTO option \<Rightarrow> EntityDTO_EntityType" where
  "GetEntityType EntityDTO_SWITCH m =
     (case m of
        Some x \<Rightarrow> (case EntityType x of Some v \<Rightarrow> v | None \<Rightarrow> EntityDTO_SWITCH)
      | None \<Rightarrow> EntityDTO_SWITCH)"

definition GetCommodityProfile ::
  "'p EntityProfileDTO option \<Rightarrow> CommodityProfileDTO list" where
  "GetCommodityProfile m = (case m of Some x \<Rightarrow> CommodityProfile x | None \<Rightarrow> [])"

definition GetModel :: "'p EntityProfileDTO option \<Rightarrow> string" where
  "GetModel m =
     (case m of
        Some x \<Rightarrow> (case Model x of Some v \<Rightarrow> v | None \<Rightarrow> [])
      | None \<Rightarrow> [])"

definition GetVendor :: "'p EntityProfileDTO option \<Rightarrow> string" where
  "GetVendor m =
     (case m of
        Some x \<Rightarrow> (case Vendor x of Some v \<Rightarrow> v | None \<Rightarrow> [])
      | None \<Rightarrow> [])"

definition GetDescription :: "'p EntityProfileDTO option \<Rightarrow> string" where
  "GetDescription m =
     (case m of
        Some x \<Rightarrow> (case Description x of Some v \<Rightarrow> v | None \<Rightarrow> [])
      | None \<Rightarrow> [])"

text \<open>
  The two variant getters use the two-result type assertion \<open>x, ok := i.(*T)\<close>: it
  succeeds exactly when the interface holds a pointer of type \<open>*T\<close>, nil or not, and
  then \<open>x.VmProfileDTO\<close> dereferences that pointer, which panics when it is nil.
\<close>

datatype 'a outcome = Returns 'a | Panics string

definition GetVmProfileDTO ::
  "'p EntityProfileDTO option \<Rightarrow> EntityProfileDTO_VMProfileDTO option outcome" where
  "GetVmProfileDTO m =
     (case GetVMOrPMProfileData m of
        Some (Vm_ptr (Some x)) \<Rightarrow> Returns (VmProfileDTO x)
      | Some (Vm_ptr None) \<Rightarrow> Panics ''nil pointer dereference''
      | _ \<Rightarrow> Returns None)"

definition GetPmProfileDTO ::
  "'p EntityProfileDTO option \<Rightarrow> EntityProfileDTO_PMProfileDTO option outcome" where
  "GetPmProfileDTO m =
     (case GetVMOrPMProfileData m of
        Some (Pm_ptr (Some x)) \<Rightarrow> Returns (PmProfileDTO x)
      | Some (Pm_ptr None) \<Rightarrow> Panics ''nil pointer dereference''
      | _ \<Rightarrow> Returns None)"

definition GetEnableProvisionMatch :: "'p EntityProfileDTO option \<Rightarrow> bool" where
  "GetEnableProvisionMatch m =
     (case m of
        Some x \<Rightarrow> (case EnableProvisionMatch x of Some v \<Rightarrow> v | None \<Rightarrow> False)
      | None \<Rightarrow> False)"

definition GetEnableResizeMatch :: "'p EntityProfileDTO option \<Rightarrow> bool" where
  "GetEnableResizeMatch m =
     (case m of
        Some x \<Rightarrow> (case EnableResizeMatch x of Some v \<Rightarrow> v | None \<Rightarrow> False)
      | None \<Rightarrow> False)"

definition GetEntityProperties :: "'p EntityProfileDTO option \<Rightarrow> 'p list" where
  "GetEntityProperties m = (case m of Some x \<Rightarrow> EntityProperties x | None \<Rightarrow> [])"

definition GetNumVCPUs :: "EntityProfileDTO_VMProfileDTO option \<Rightarrow> int32" where
  "GetNumVCPUs m =
     (case m of
        Some x \<Rightarrow> (case NumVCPUs x of Some v \<Rightarrow> v | None \<Rightarrow> 0)
      | None \<Rightarrow> 0)"

definition GetVCPUSpeed :: "EntityProfileDTO_VMProfileDTO option \<Rightarrow> float32" where
  "GetVCPUSpeed m =
     (case m of
        Some x \<Rightarrow> (case VCPUSpeed x of Some v \<Rightarrow> v | None \<Rightarrow> 0)
      | None \<Rightarrow> 0)"

definition GetNumStorageConsumed :: "EntityProfileDTO_VMProfileDTO option \<Rightarrow> int32" where
  "GetNumStorageConsumed m =
     (case m of
        Some x \<Rightarrow> (case NumStorageConsumed x of Some v \<Rightarrow> v | None \<Rightarrow> 0)
      | None \<Rightarrow> 0)"

definition GetNumCores :: "EntityProfileDTO_PMProfileDTO option \<Rightarrow> int32" where
  "GetNumCores m =
     (case m of
        Some x \<Rightarrow> (case NumCores x of Some v \<Rightarrow> v | None \<Rightarrow> 0)
      | None \<Rightarrow> 0)"

definition GetCpuCoreSpeed :: "EntityProfileDTO_PMProfileDTO option \<Rightarrow> float32" where
  "GetCpuCoreSpeed m =
     (case m of
        Some x \<Rightarrow> (case CpuCoreSpeed x of Some v \<Rightarrow> v | None \<Rightarrow> 0)
      | None \<Rightarrow> 0)"

definition GetCommodityType ::
  "CommodityDTO_CommodityType \<Rightarrow> CommodityProfileDTO option \<Rightarrow> CommodityDTO_CommodityType"
  where
  "GetCommodityType CommodityDTO_CLUSTER m =
     (case m of
        Some x \<Rightarrow> (case CommodityType x of Some v \<Rightarrow> v | None \<Rightarrow> CommodityDTO_CLUSTER)
      | None \<Rightarrow> CommodityDTO_CLUSTER)"

definition GetCapacity :: "CommodityProfileDTO option \<Rightarrow> float32" where
  "GetCapacity m =
     (case m of
        Some x \<Rightarrow> (case Capacity x of Some v \<Rightarrow> v | None \<Rightarrow> 0)
      | None \<Rightarrow> 0)"

definition GetConsumedFactor :: "CommodityProfileDTO option \<Rightarrow> float32" where
  "GetConsumedFactor m =
     (case m of
        Some x \<Rightarrow> (case ConsumedFactor x of Some v \<Rightarrow> v | None \<Rightarrow> 0)
      | None \<Rightarrow> 0)"

definition GetConsumed :: "CommodityProfileDTO option \<Rightarrow> float32" where
  "GetConsumed m =
     (case m of
        Some x \<Rightarrow> (case Consumed x of Some v \<Rightarrow> v | None \<Rightarrow> 0)
      | None \<Rightarrow> 0)"

definition GetReservation :: "CommodityProfileDTO option \<Rightarrow> float32" where
  "GetReservation m =
     (case m of
        Some x \<Rightarrow> (case Reservation x of Some v \<Rightarrow> v | None \<Rightarrow> 0)
      | None \<Rightarrow> 0)"

definition GetOverhead :: "CommodityProfileDTO option \<Rightarrow> float32" where
  "GetOverhead m =
     (case m of
        Some x \<Rightarrow> (case Overhead x of Some v \<Rightarrow> v | None \<Rightarrow> 0)
      | None \<Rightarrow> 0)"

definition GetId_Deployment :: "'c DeploymentProfileDTO option \<Rightarrow> string" where
  "GetId_Deployment m =
     (case m of
        Some x \<Rightarrow> (case DeploymentProfileDTO.Id x of Some v \<Rightarrow> v | None \<Rightarrow> [])
      | None \<Rightarrow> [])"

definition GetProfileName :: "'c DeploymentProfileDTO option \<Rightarrow> string" where
  "GetProfileName m =
     (case m of
        Some x \<Rightarrow> (case ProfileName x of Some v \<Rightarrow> v | None \<Rightarrow> [])
      | None \<Rightarrow> [])"

definition GetContextData :: "'c DeploymentProfileDTO option \<Rightarrow> 'c list" where
  "GetContextData m = (case m of Some x \<Rightarrow> ContextData x | None \<Rightarrow> [])"

definition GetRelatedEntityProfileId :: "'c DeploymentProfileDTO option \<Rightarrow> string list" where
  "GetRelatedEntityProfileId m =
     (case m of Some x \<Rightarrow> RelatedEntityProfileId x | None \<Rightarrow> [])"

definition GetRelatedScopeId :: "'c DeploymentProfileDTO option \<Rightarrow> string list" where
  "GetRelatedScopeId m = (case m of Some x \<Rightarrow> RelatedScopeId x | None \<Rightarrow> [])"

section \<open>Wire primitives\<close>

text \<open>
  The generated file calls into the protobuf runtime (\<open>proto.Buffer\<close> and its methods,
  \<open>proto.Size\<close>, \<open>proto.SizeVarint\<close>, the wire-type constants), which is not part of
  the file.  The constants below carry the values of the protobuf wire format.
\<close>

definition WireVarint :: nat where "WireVarint = 0"
definition WireFixed64 :: nat where "WireFixed64 = 1"
definition WireBytes :: nat where "WireBytes = 2"
definition WireFixed32 :: nat where "WireFixed32 = 5"

text \<open>
  The errors the file itself produces (\<open>proto.ErrInternalBadWireType\<close>, the \<open>fmt.Errorf\<close>
  of the oneof marshaler, of which the printed type name is kept), \<open>proto.ErrNil\<close> of
  the runtime for a nil message, and the decode errors of the specification.
\<close>

datatype error =
    ErrInternalBadWireType
  | ErrUnexpectedType string
  | ErrNil
  | MISSING_REQUIRED_FIELD string
  | MALFORMED_VARINT
  | MALFORMED_VARIANT
  | UNEXPECTED_WIRE_TYPE nat
  | TRUNCATED_MESSAGE

text \<open>
  Modelled from the spec: \<open>Buffer.EncodeVarint\<close> and \<open>Buffer.DecodeVarint\<close> of the
  protobuf runtime, the base-128 varint of the wire layout: seven bits per byte, least
  significant group first, the top bit set on every byte but the last.  The value is a
  natural number; a varint that ends before its last byte is malformed.
\<close>

function EncodeVarint :: "nat \<Rightarrow> byte list" where
  "EncodeVarint x =
     (if x < 128 then [of_nat x] else of_nat (128 + x mod 128) # EncodeVarint (x div 128))"
  by pat_completeness auto
termination
  by (relation "measure (\<lambda>x. x)") auto

declare EncodeVarint.simps [simp del]

fun DecodeVarint :: "byte list \<Rightarrow> (nat \<times> byte list) option" where
  "DecodeVarint [] = None"
| "DecodeVarint (b # bs) =
     (if unat b < 128 then Some (unat b, bs)
      else (case DecodeVarint bs of
              None \<Rightarrow> None
            | Some (v, r) \<Rightarrow> Some (unat b - 128 + 128 * v, r)))"

text \<open>Modelled from the spec: \<open>proto.SizeVarint\<close>, the length of a varint.\<close>

definition SizeVarint :: "nat \<Rightarrow> nat" where
  "SizeVarint x = length (EncodeVarint x)"

text \<open>
  Modelled from the spec: the payload forms of the wire layout.  A string is its bytes;
  an \<open>int32\<close> or enum is the varint of its sign extension to 64 bits and is read back by
  truncation; a bool is the varint 1 or 0 and any non-zero varint reads as true; a
  \<open>float32\<close> is the four bytes of its bit pattern, least significant first.
\<close>

definition byte_of_char :: "char \<Rightarrow> byte" where
  "byte_of_char c = of_nat (of_char c)"

definition char_of_byte :: "byte \<Rightarrow> char" where
  "char_of_byte b = char_of (unat b)"

definition int32_to_varint :: "int32 \<Rightarrow> nat" where
  "int32_to_varint x = unat (scast x :: 64 word)"

definition varint_to_int32 :: "nat \<Rightarrow> int32" where
  "varint_to_int32 v = of_nat v"

definition bool_to_varint :: "bool \<Rightarrow> nat" where
  "bool_to_varint b = (if b then 1 else 0)"

definition varint_to_bool :: "nat \<Rightarrow> bool" where
  "varint_to_bool v = (v \<noteq> 0)"

definition fixed32_bytes :: "float32 \<Rightarrow> byte list" where
  "fixed32_bytes w =
     [ucast w, ucast (drop_bit 8 w), ucast (drop_bit 16 w), ucast (drop_bit 24 w)]"

definition bytes_fixed32 :: "byte list \<Rightarrow> float32" where
  "bytes_fixed32 bs =
     (case bs of
        [a, b, c, d] \<Rightarrow>
          ucast a OR push_bit 8 (ucast b) OR push_bit 16 (ucast c) OR push_bit 24 (ucast d)
      | _ \<Rightarrow> 0)"

text \<open>
  Modelled from the spec: one encoded field is the varint key
  \<open>(fieldNumber << 3) | wireType\<close> followed by the payload.
\<close>

definition key :: "nat \<Rightarrow> nat \<Rightarrow> byte list" where
  "key tag wire = EncodeVarint (push_bit 3 tag OR wire)"

definition put_varint :: "nat \<Rightarrow> nat \<Rightarrow> byte list" where
  "put_varint tag v = key tag WireVarint @ EncodeVarint v"

definition put_fixed32 :: "nat \<Rightarrow> float32 \<Rightarrow> byte list" where
  "put_fixed32 tag w = key tag WireFixed32 @ fixed32_bytes w"

definition put_bytes :: "nat \<Rightarrow> byte list \<Rightarrow> byte list" where
  "put_bytes tag bs = key tag WireBytes @ EncodeVarint (length bs) @ bs"

definition put_string :: "nat \<Rightarrow> string \<Rightarrow> byte list" where
  "put_string tag s = put_bytes tag (map byte_of_char s)"

definition put_opt :: "('a \<Rightarrow> byte list) \<Rightarrow> 'a option \<Rightarrow> byte list" where
  "put_opt f x = (case x of None \<Rightarrow> [] | Some v \<Rightarrow> f v)"

definition put_rep :: "('a \<Rightarrow> byte list) \<Rightarrow> 'a list \<Rightarrow> byte list" where
  "put_rep f xs = concat (map f xs)"

text \<open>
  Modelled from the spec: reading the payload of a declared field from the bytes that
  follow its key.  Each reader checks the wire type (\<open>UNEXPECTED_WIRE_TYPE\<close>), reads
  the payload (\<open>MALFORMED_VARINT\<close>, \<open>TRUNCATED_MESSAGE\<close>) and hands the value to the
  continuation that stores it, returning the message and the remaining bytes.
\<close>

definition get_varint ::
  "nat \<Rightarrow> byte list \<Rightarrow> (nat \<Rightarrow> 'm) \<Rightarrow> error + 'm \<times> byte list" where
  "get_varint wire bs f =
     (if wire \<noteq> WireVarint then Inl (UNEXPECTED_WIRE_TYPE wire)
      else (case DecodeVarint bs of
              None \<Rightarrow> Inl MALFORMED_VARINT
            | Some (v, r) \<Rightarrow> Inr (f v, r)))"

definition get_fixed32 ::
  "nat \<Rightarrow> byte list \<Rightarrow> (float32 \<Rightarrow> 'm) \<Rightarrow> error + 'm \<times> byte list" where
  "get_fixed32 wire bs f =
     (if wire \<noteq> WireFixed32 then Inl (UNEXPECTED_WIRE_TYPE wire)
      else if length bs < 4 then Inl TRUNCATED_MESSAGE
      else Inr (f (bytes_fixed32 (take 4 bs)), drop 4 bs))"

definition get_bytes ::
  "nat \<Rightarrow> byte list \<Rightarrow> (byte list \<Rightarrow> 'm) \<Rightarrow> error + 'm \<times> byte list" where
  "get_bytes wire bs f =
     (if wire \<noteq> WireBytes then Inl (UNEXPECTED_WIRE_TYPE wire)
      else (case DecodeVarint bs of
              None \<Rightarrow> Inl MALFORMED_VARINT
            | Some (n, r) \<Rightarrow>
                if length r < n then Inl TRUNCATED_MESSAGE
                else Inr (f (take n r), drop n r)))"

definition get_string ::
  "nat \<Rightarrow> byte list \<Rightarrow> (string \<Rightarrow> 'm) \<Rightarrow> error + 'm \<times> byte list" where
  "get_string wire bs f = get_bytes wire bs (\<lambda>p. f (map char_of_byte p))"

definition get_message ::
  "nat \<Rightarrow> byte list \<Rightarrow> (byte list \<Rightarrow> error + 'a) \<Rightarrow> ('a \<Rightarrow> 'm) \<Rightarrow> error + 'm \<times> byte list"
  where
  "get_message wire bs dec f =
     (if wire \<noteq> WireBytes then Inl (UNEXPECTED_WIRE_TYPE wire)
      else (case DecodeVarint bs of
              None \<Rightarrow> Inl MALFORMED_VARINT
            | Some (n, r) \<Rightarrow>
                if length r < n then Inl TRUNCATED_MESSAGE
                else (case dec (take n r) of
                        Inl e \<Rightarrow> Inl e
                      | Inr x \<Rightarrow> Inr (f x, drop n r))))"

text \<open>
  Modelled from the spec: skipping the payload of a field that the schema does not
  declare, by its wire type alone (varint, 64-bit and 32-bit fixed width,
  length-delimited).
\<close>

definition skip_field :: "nat \<Rightarrow> byte list \<Rightarrow> error + byte list" where
  "skip_field wire bs =
     (if wire = WireVarint then
        (case DecodeVarint bs of None \<Rightarrow> Inl MALFORMED_VARINT | Some (v, r) \<Rightarrow> Inr r)
      else if wire = WireFixed64 then
        (if length bs < 8 then Inl TRUNCATED_MESSAGE else Inr (drop 8 bs))
      else if wire = WireBytes then
        (case DecodeVarint bs of
           None \<Rightarrow> Inl MALFORMED_VARINT
         | Some (n, r) \<Rightarrow> if length r < n then Inl TRUNCATED_MESSAGE else Inr (drop n r))
      else if wire = WireFixed32 then
        (if length bs < 4 then Inl TRUNCATED_MESSAGE else Inr (drop 4 bs))
      else Inl (UNEXPECTED_WIRE_TYPE wire))"

text \<open>
  Modelled from the spec: one step of \<open>decode\<close>.  It reads a key and splits it into
  field number and wire type; a field the message declares (\<open>known\<close> answers \<open>Some\<close>)
  is decoded into the message, any other field is skipped and its raw bytes, key
  included, are appended to the message's unknown-field buffer by \<open>save\<close>.
\<close>

definition field_step ::
  "('m \<Rightarrow> nat \<Rightarrow> nat \<Rightarrow> byte list \<Rightarrow> (error + 'm \<times> byte list) option) \<Rightarrow>
   ('m \<Rightarrow> byte list \<Rightarrow> 'm) \<Rightarrow> 'm \<Rightarrow> byte list \<Rightarrow> error + 'm \<times> byte list" where
  "field_step known save m bs =
     (case DecodeVarint bs of
        None \<Rightarrow> Inl MALFORMED_VARINT
      | Some (k, r) \<Rightarrow>
          (case known m (drop_bit 3 k) (k AND 7) r of
             Some res \<Rightarrow> res
           | None \<Rightarrow>
               (case skip_field (k AND 7) r of
                  Inl e \<Rightarrow> Inl e
                | Inr r' \<Rightarrow> Inr (save m (take (length bs - length r') bs), r'))))"

text \<open>
  Modelled from the spec: the loop of \<open>decode\<close>, one step per field until the input is
  used up; the first error ends it.  Every step consumes at least its key, so the test
  that the remainder got shorter never fails; it is what makes the recursion
  well-founded.
\<close>

function unmarshal_loop ::
  "('m \<Rightarrow> byte list \<Rightarrow> error + 'm \<times> byte list) \<Rightarrow> 'm \<Rightarrow> byte list \<Rightarrow> error + 'm" where
  "unmarshal_loop step m bs =
     (if bs = [] then Inr m
      else (case step m bs of
              Inl e \<Rightarrow> Inl e
            | Inr (m', rest) \<Rightarrow>
                if length rest < length bs then unmarshal_loop step m' rest
                else Inl TRUNCATED_MESSAGE))"
  by pat_completeness auto
termination
  by (relation "measure (\<lambda>(step, m, bs). length bs)") auto

declare unmarshal_loop.simps [simp del]

text \<open>
  A buffer of unknown fields is well formed for a message when it is a sequence of
  whole fields none of whose numbers the message declares.
\<close>

function only_unknown :: "(nat \<Rightarrow> bool) \<Rightarrow> byte list \<Rightarrow> bool" where
  "only_unknown declared bs =
     (if bs = [] then True
      else (case DecodeVarint bs of
              None \<Rightarrow> False
            | Some (k, r) \<Rightarrow>
                if declared (drop_bit 3 k) then False
                else (case skip_field (k AND 7) r of
                        Inl e \<Rightarrow> False
                      | Inr r' \<Rightarrow>
                          if length r' < length bs then only_unknown declared r'
                          else False)))"
  by pat_completeness auto
termination
  by (relation "measure (\<lambda>(declared, bs). length bs)") auto

declare only_unknown.simps [simp del]

text \<open>
  The field numbers of a byte stream, in the order of the stream: the stream is split
  into fields by their keys and wire types alone.  \<open>None\<close> when the stream is not a
  sequence of whole fields.
\<close>

function field_numbers :: "byte list \<Rightarrow> nat list option" where
  "field_numbers bs =
     (if bs = [] then Some []
      else (case DecodeVarint bs of
              None \<Rightarrow> None
            | Some (k, r) \<Rightarrow>
                (case skip_field (k AND 7) r of
                   Inl e \<Rightarrow> None
                 | Inr r' \<Rightarrow>
                     if length r' < length bs
                     then map_option ((#) (drop_bit 3 k)) (field_numbers r')
                     else None)))"
  by pat_completeness auto
termination
  by (relation "measure length") auto

declare field_numbers.simps [simp del]

section \<open>The codec of the nested messages\<close>

text \<open>
  Modelled from the spec: \<open>encode\<close> and \<open>decode\<close> (\<open>proto.Marshal\<close> and
  \<open>proto.Unmarshal\<close> of the protobuf runtime, which is not part of the file), driven by
  the \<open>protobuf:"..."\<close> tag of each struct field of the file: its wire kind, its field
  number and its label \<open>req\<close>, \<open>opt\<close> or \<open>rep\<close>.  \<open>encode\<close> emits the present
  fields in the order of their numbers and then the unknown-field buffer verbatim; an
  absent field emits nothing.  \<open>decode\<close> starts from the empty message, stores a
  declared field at each occurrence (a repeated field appends), collects every other
  field in the unknown-field buffer, and afterwards checks the fields labelled \<open>req\<close>
  in the order of their numbers.
\<close>

definition new_VMProfileDTO :: EntityProfileDTO_VMProfileDTO where
  "new_VMProfileDTO =
     \<lparr>NumVCPUs = None, VCPUSpeed = None, NumStorageConsumed = None,
      XXX_unrecognized = []\<rparr>"

definition Marshal_VMProfileDTO :: "EntityProfileDTO_VMProfileDTO \<Rightarrow> byte list" where
  "Marshal_VMProfileDTO m =
     put_opt (\<lambda>v. put_varint 1 (int32_to_varint v)) (NumVCPUs m)
     @ put_opt (put_fixed32 2) (VCPUSpeed m)
     @ put_opt (\<lambda>v. put_varint 3 (int32_to_varint v)) (NumStorageConsumed m)
     @ EntityProfileDTO_VMProfileDTO.XXX_unrecognized m"

definition declared_VMProfileDTO :: "nat \<Rightarrow> bool" where
  "declared_VMProfileDTO tag = (tag = 1 \<or> tag = 2 \<or> tag = 3)"

definition field_VMProfileDTO ::
  "EntityProfileDTO_VMProfileDTO \<Rightarrow> nat \<Rightarrow> nat \<Rightarrow> byte list \<Rightarrow>
   (error + EntityProfileDTO_VMProfileDTO \<times> byte list) option" where
  "field_VMProfileDTO m tag wire bs =
     (if tag = 1 then
        Some (get_varint wire bs (\<lambda>v. m\<lparr>NumVCPUs := Some (varint_to_int32 v)\<rparr>))
      else if tag = 2 then
        Some (get_fixed32 wire bs (\<lambda>v. m\<lparr>VCPUSpeed := Some v\<rparr>))
      else if tag = 3 then
        Some (get_varint wire bs (\<lambda>v. m\<lparr>NumStorageConsumed := Some (varint_to_int32 v)\<rparr>))
      else None)"

definition save_VMProfileDTO ::
  "EntityProfileDTO_VMProfileDTO \<Rightarrow> byte list \<Rightarrow> EntityProfileDTO_VMProfileDTO" where
  "save_VMProfileDTO m raw =
     m\<lparr>EntityProfileDTO_VMProfileDTO.XXX_unrecognized :=
         EntityProfileDTO_VMProfileDTO.XXX_unrecognized m @ raw\<rparr>"

definition Unmarshal_VMProfileDTO :: "byte list \<Rightarrow> error + EntityProfileDTO_VMProfileDTO" where
  "Unmarshal_VMProfileDTO bs =
     unmarshal_loop (field_step field_VMProfileDTO save_VMProfileDTO) new_VMProfileDTO bs"

definition new_PMProfileDTO :: EntityProfileDTO_PMProfileDTO where
  "new_PMProfileDTO = \<lparr>NumCores = None, CpuCoreSpeed = None, XXX_unrecognized = []\<rparr>"

definition Marshal_PMProfileDTO :: "EntityProfileDTO_PMProfileDTO \<Rightarrow> byte list" where
  "Marshal_PMProfileDTO m =
     put_opt (\<lambda>v. put_varint 1 (int32_to_varint v)) (NumCores m)
     @ put_opt (put_fixed32 2) (CpuCoreSpeed m)
     @ EntityProfileDTO_PMProfileDTO.XXX_unrecognized m"

definition declared_PMProfileDTO :: "nat \<Rightarrow> bool" where
  "declared_PMProfileDTO tag = (tag = 1 \<or> tag = 2)"

definition field_PMProfileDTO ::
  "EntityProfileDTO_PMProfileDTO \<Rightarrow> nat \<Rightarrow> nat \<Rightarrow> byte list \<Rightarrow>
   (error + EntityProfileDTO_PMProfileDTO \<times> byte list) option" where
  "field_PMProfileDTO m tag wire bs =
     (if tag = 1 then
        Some (get_varint wire bs (\<lambda>v. m\<lparr>NumCores := Some (varint_to_int32 v)\<rparr>))
      else if tag = 2 then
        Some (get_fixed32 wire bs (\<lambda>v. m\<lparr>CpuCoreSpeed := Some v\<rparr>))
      else None)"

definition save_PMProfileDTO ::
  "EntityProfileDTO_PMProfileDTO \<Rightarrow> byte list \<Rightarrow> EntityProfileDTO_PMProfileDTO" where
  "save_PMProfileDTO m raw =
     m\<lparr>EntityProfileDTO_PMProfileDTO.XXX_unrecognized :=
         EntityProfileDTO_PMProfileDTO.XXX_unrecognized m @ raw\<rparr>"

definition Unmarshal_PMProfileDTO :: "byte list \<Rightarrow> error + EntityProfileDTO_PMProfileDTO" where
  "Unmarshal_PMProfileDTO bs =
     unmarshal_loop (field_step field_PMProfileDTO save_PMProfileDTO) new_PMProfileDTO bs"

definition new_CommodityProfileDTO :: CommodityProfileDTO where
  "new_CommodityProfileDTO =
     \<lparr>CommodityType = None, Capacity = None, ConsumedFactor = None, Consumed = None,
      Reservation = None, Overhead = None, XXX_unrecognized = []\<rparr>"

definition Marshal_CommodityProfileDTO :: "CommodityProfileDTO \<Rightarrow> byte list" where
  "Marshal_CommodityProfileDTO m =
     put_opt (\<lambda>v. put_varint 1 (int32_to_varint v)) (CommodityType m)
     @ put_opt (put_fixed32 2) (Capacity m)
     @ put_opt (put_fixed32 3) (ConsumedFactor m)
     @ put_opt (put_fixed32 4) (Consumed m)
     @ put_opt (put_fixed32 5) (Reservation m)
     @ put_opt (put_fixed32 6) (Overhead m)
     @ CommodityProfileDTO.XXX_unrecognized m"

definition declared_CommodityProfileDTO :: "nat \<Rightarrow> bool" where
  "declared_CommodityProfileDTO tag = (1 \<le> tag \<and> tag \<le> 6)"

definition field_CommodityProfileDTO ::
  "CommodityProfileDTO \<Rightarrow> nat \<Rightarrow> nat \<Rightarrow> byte list \<Rightarrow>
   (error + CommodityProfileDTO \<times> byte list) option" where
  "field_CommodityProfileDTO m tag wire bs =
     (if tag = 1 then
        Some (get_varint wire bs (\<lambda>v. m\<lparr>CommodityType := Some (varint_to_int32 v)\<rparr>))
      else if tag = 2 then Some (get_fixed32 wire bs (\<lambda>v. m\<lparr>Capacity := Some v\<rparr>))
      else if tag = 3 then Some (get_fixed32 wire bs (\<lambda>v. m\<lparr>ConsumedFactor := Some v\<rparr>))
      else if tag = 4 then Some (get_fixed32 wire bs (\<lambda>v. m\<lparr>Consumed := Some v\<rparr>))
      else if tag = 5 then Some (get_fixed32 wire bs (\<lambda>v. m\<lparr>Reservation := Some v\<rparr>))
      else if tag = 6 then Some (get_fixed32 wire bs (\<lambda>v. m\<lparr>Overhead := Some v\<rparr>))
      else None)"

definition save_CommodityProfileDTO ::
  "CommodityProfileDTO \<Rightarrow> byte list \<Rightarrow> CommodityProfileDTO" where
  "save_CommodityProfileDTO m raw =
     m\<lparr>CommodityProfileDTO.XXX_unrecognized :=
         CommodityProfileDTO.XXX_unrecognized m @ raw\<rparr>"

definition required_CommodityProfileDTO :: "CommodityProfileDTO \<Rightarrow> error + CommodityProfileDTO"
  where
  "required_CommodityProfileDTO m =
     (if CommodityType m = None then Inl (MISSING_REQUIRED_FIELD ''commodityType'')
      else Inr m)"

definition Unmarshal_CommodityProfileDTO :: "byte list \<Rightarrow> error + CommodityProfileDTO" where
  "Unmarshal_CommodityProfileDTO bs =
     (case unmarshal_loop (field_step field_CommodityProfileDTO save_CommodityProfileDTO)
             new_CommodityProfileDTO bs of
        Inl e \<Rightarrow> Inl e
      | Inr m \<Rightarrow> required_CommodityProfileDTO m)"

section \<open>The oneof functions of EntityProfileDTO\<close>

text \<open>
  Modelled from the spec: \<open>Buffer.EncodeMessage\<close>, \<open>Buffer.DecodeMessage\<close> and
  \<open>proto.Size\<close> of the protobuf runtime.  \<open>EncodeMessage\<close> appends the length of the
  encoded message and the encoded message, and returns \<open>ErrNil\<close> for a nil message.
  \<open>DecodeMessage\<close> reads a length and that many bytes and decodes them into the
  message it is given, which is left as it was when the decoding fails.
  \<open>proto.Size\<close> is the length of the encoding, 0 for a nil message.
\<close>

definition EncodeMessage ::
  "('a \<Rightarrow> byte list) \<Rightarrow> byte list \<Rightarrow> 'a option \<Rightarrow> byte list \<times> error option" where
  "EncodeMessage enc b pb =
     (case pb of
        None \<Rightarrow> (b, Some ErrNil)
      | Some msg \<Rightarrow> (b @ EncodeVarint (length (enc msg)) @ enc msg, None))"

definition DecodeMessage ::
  "(byte list \<Rightarrow> error + 'a) \<Rightarrow> 'a \<Rightarrow> byte list \<Rightarrow> error option \<times> 'a \<times> byte list" where
  "DecodeMessage dec msg b =
     (case DecodeVarint b of
        None \<Rightarrow> (Some MALFORMED_VARINT, msg, b)
      | Some (n, r) \<Rightarrow>
          if length r < n then (Some TRUNCATED_MESSAGE, msg, b)
          else (case dec (take n r) of
                  Inl e \<Rightarrow> (Some e, msg, drop n r)
                | Inr x \<Rightarrow> (None, x, drop n r)))"

definition proto_Size :: "('a \<Rightarrow> byte list) \<Rightarrow> 'a option \<Rightarrow> nat" where
  "proto_Size enc pb = (case pb of None \<Rightarrow> 0 | Some msg \<Rightarrow> length (enc msg))"

text \<open>
  \<open>_EntityProfileDTO_OneofMarshaler\<close>.  The buffer \<open>b\<close> is the bytes written so far;
  the result is the buffer at the return or at the panic, and the returned error
  (\<open>None\<close> for \<open>nil\<close>).  The type switch takes the first case for every pointer of
  type \<open>*EntityProfileDTO_VmProfileDTO\<close>, so a nil pointer of that type writes the key
  and then panics at \<open>x.VmProfileDTO\<close>.
\<close>

definition EntityProfileDTO_OneofMarshaler ::
  "'p EntityProfileDTO \<Rightarrow> byte list \<Rightarrow> byte list \<times> error option outcome" where
  "EntityProfileDTO_OneofMarshaler m b =
     (case VMOrPMProfileData m of
        Some (Vm_ptr x) \<Rightarrow>
          (let b1 = b @ EncodeVarint (push_bit 3 8 OR WireBytes) in
           case x of
             None \<Rightarrow> (b1, Panics ''nil pointer dereference'')
           | Some w \<Rightarrow>
               (case EncodeMessage Marshal_VMProfileDTO b1 (VmProfileDTO w) of
                  (b2, Some err) \<Rightarrow> (b2, Returns (Some err))
                | (b2, None) \<Rightarrow> (b2, Returns None)))
      | Some (Pm_ptr x) \<Rightarrow>
          (let b1 = b @ EncodeVarint (push_bit 3 9 OR WireBytes) in
           case x of
             None \<Rightarrow> (b1, Panics ''nil pointer dereference'')
           | Some w \<Rightarrow>
               (case EncodeMessage Marshal_PMProfileDTO b1 (PmProfileDTO w) of
                  (b2, Some err) \<Rightarrow> (b2, Returns (Some err))
                | (b2, None) \<Rightarrow> (b2, Returns None)))
      | None \<Rightarrow> (b, Returns None)
      | Some (Other_type T) \<Rightarrow> (b, Returns (Some (ErrUnexpectedType T))))"

text \<open>
  \<open>_EntityProfileDTO_OneofUnmarshaler\<close>.  \<open>b\<close> is the unread rest of the buffer, just
  after the key; the result is the pair the Go function returns, the message and the
  rest of the buffer.  The union is assigned before the error of \<open>DecodeMessage\<close> is
  returned, whatever the union held.
\<close>

definition EntityProfileDTO_OneofUnmarshaler ::
  "'p EntityProfileDTO \<Rightarrow> nat \<Rightarrow> nat \<Rightarrow> byte list \<Rightarrow>
   bool \<times> error option \<times> 'p EntityProfileDTO \<times> byte list" where
  "EntityProfileDTO_OneofUnmarshaler m tag wire b =
     (if tag = 8 then
        (if wire \<noteq> WireBytes then (True, Some ErrInternalBadWireType, m, b)
         else (case DecodeMessage Unmarshal_VMProfileDTO new_VMProfileDTO b of
                 (err, msg, b') \<Rightarrow>
                   (True, err,
                    m\<lparr>VMOrPMProfileData := Some (Vm_ptr (Some \<lparr>VmProfileDTO = Some msg\<rparr>))\<rparr>,
                    b')))
      else if tag = 9 then
        (if wire \<noteq> WireBytes then (True, Some ErrInternalBadWireType, m, b)
         else (case DecodeMessage Unmarshal_PMProfileDTO new_PMProfileDTO b of
                 (err, msg, b') \<Rightarrow>
                   (True, err,
                    m\<lparr>VMOrPMProfileData := Some (Pm_ptr (Some \<lparr>PmProfileDTO = Some msg\<rparr>))\<rparr>,
                    b')))
      else (False, None, m, b))"

text \<open>
  \<open>_EntityProfileDTO_OneofSizer\<close>.  It has no error result: the default case of its
  type switch panics.
\<close>

definition EntityProfileDTO_OneofSizer :: "'p EntityProfileDTO \<Rightarrow> nat outcome" where
  "EntityProfileDTO_OneofSizer m =
     (case VMOrPMProfileData m of
        Some (Vm_ptr x) \<Rightarrow>
          (case x of
             None \<Rightarrow> Panics ''nil pointer dereference''
           | Some w \<Rightarrow>
               (let s = proto_Size Marshal_VMProfileDTO (VmProfileDTO w) in
                Returns (0 + SizeVarint (push_bit 3 8 OR WireBytes) + SizeVarint s + s)))
      | Some (Pm_ptr x) \<Rightarrow>
          (case x of
             None \<Rightarrow> Panics ''nil pointer dereference''
           | Some w \<Rightarrow>
               (let s = proto_Size Marshal_PMProfileDTO (PmProfileDTO w) in
                Returns (0 + SizeVarint (push_bit 3 9 OR WireBytes) + SizeVarint s + s)))
      | None \<Rightarrow> Returns 0
      | Some (Other_type T) \<Rightarrow> Panics (''proto: unexpected type '' @ T @ '' in oneof''))"

section \<open>The codec of the two aggregates\<close>

text \<open>
  Modelled from the spec: \<open>encode\<close> and \<open>decode\<close> of \<open>EntityProfileDTO\<close>.  The
  encoding and decoding of an \<open>EntityDTO_EntityProperty\<close> are the parameters \<open>encP\<close>
  and \<open>decP\<close>.  \<open>encode\<close> emits the struct fields, then calls the oneof marshaler of the
  file on the buffer and passes its error on, then emits the unknown-field buffer.  In
  \<open>decode\<close>, a field number that no struct field declares goes to the oneof unmarshaler
  of the file: when that reports the field as its own, its error ends the decoding, the
  bad-wire-type error as \<open>MALFORMED_VARIANT\<close>; when it does not, the field is unknown.
\<close>

definition new_EntityProfileDTO :: "'p EntityProfileDTO" where
  "new_EntityProfileDTO =
     \<lparr>EntityProfileDTO.Id = None, DisplayName = None, EntityType = None, CommodityProfile = [],
      Model = None, Vendor = None, Description = None, VMOrPMProfileData = None,
      EnableProvisionMatch = None, EnableResizeMatch = None, EntityProperties = [],
      XXX_unrecognized = []\<rparr>"

definition struct_fields_EntityProfileDTO ::
  "('p \<Rightarrow> byte list) \<Rightarrow> 'p EntityProfileDTO \<Rightarrow> byte list" where
  "struct_fields_EntityProfileDTO encP m =
     put_opt (put_string 1) (EntityProfileDTO.Id m)
     @ put_opt (put_string 2) (DisplayName m)
     @ put_opt (\<lambda>v. put_varint 3 (int32_to_varint v)) (EntityType m)
     @ put_rep (\<lambda>c. put_bytes 4 (Marshal_CommodityProfileDTO c)) (CommodityProfile m)
     @ put_opt (put_string 5) (Model m)
     @ put_opt (put_string 6) (Vendor m)
     @ put_opt (put_string 7) (Description m)
     @ put_opt (\<lambda>v. put_varint 10 (bool_to_varint v)) (EnableProvisionMatch m)
     @ put_opt (\<lambda>v. put_varint 11 (bool_to_varint v)) (EnableResizeMatch m)
     @ put_rep (\<lambda>p. put_bytes 12 (encP p)) (EntityProperties m)"

definition Marshal_EntityProfileDTO ::
  "('p \<Rightarrow> byte list) \<Rightarrow> 'p EntityProfileDTO \<Rightarrow> (error + byte list) outcome" where
  "Marshal_EntityProfileDTO encP m =
     (case EntityProfileDTO_OneofMarshaler m (struct_fields_EntityProfileDTO encP m) of
        (b, Returns None) \<Rightarrow> Returns (Inr (b @ EntityProfileDTO.XXX_unrecognized m))
      | (b, Returns (Some e)) \<Rightarrow> Returns (Inl e)
      | (b, Panics s) \<Rightarrow> Panics s)"


definition struct_field_EntityProfileDTO ::
  "(byte list \<Rightarrow> error + 'p) \<Rightarrow> 'p EntityProfileDTO \<Rightarrow> nat \<Rightarrow> nat \<Rightarrow> byte list \<Rightarrow>
   (error + 'p EntityProfileDTO \<times> byte list) option" where
  "struct_field_EntityProfileDTO decP m tag wire bs =
     (if tag = 1 then Some (get_string wire bs (\<lambda>v. m\<lparr>EntityProfileDTO.Id := Some v\<rparr>))
      else if tag = 2 then Some (get_string wire bs (\<lambda>v. m\<lparr>DisplayName := Some v\<rparr>))
      else if tag = 3 then
        Some (get_varint wire bs (\<lambda>v. m\<lparr>EntityType := Some (varint_to_int32 v)\<rparr>))
      else if tag = 4 then
        Some (get_message wire bs Unmarshal_CommodityProfileDTO
                (\<lambda>c. m\<lparr>CommodityProfile := CommodityProfile m @ [c]\<rparr>))
      else if tag = 5 then Some (get_string wire bs (\<lambda>v. m\<lparr>Model := Some v\<rparr>))
      else if tag = 6 then Some (get_string wire bs (\<lambda>v. m\<lparr>Vendor := Some v\<rparr>))
      else if tag = 7 then Some (get_string wire bs (\<lambda>v. m\<lparr>Description := Some v\<rparr>))
      else if tag = 10 then
        Some (get_varint wire bs (\<lambda>v. m\<lparr>EnableProvisionMatch := Some (varint_to_bool v)\<rparr>))
      else if tag = 11 then
        Some (get_varint wire bs (\<lambda>v. m\<lparr>EnableResizeMatch := Some (varint_to_bool v)\<rparr>))
      else if tag = 12 then
        Some (get_message wire bs decP
                (\<lambda>p. m\<lparr>EntityProperties := EntityProperties m @ [p]\<rparr>))
      else None)"

definition field_EntityProfileDTO ::
  "(byte list \<Rightarrow> error + 'p) \<Rightarrow> 'p EntityProfileDTO \<Rightarrow> nat \<Rightarrow> nat \<Rightarrow> byte list \<Rightarrow>
   (error + 'p EntityProfileDTO \<times> byte list) option" where
  "field_EntityProfileDTO decP m tag wire bs =
     (case struct_field_EntityProfileDTO decP m tag wire bs of
        Some res \<Rightarrow> Some res
      | None \<Rightarrow>
          (case EntityProfileDTO_OneofUnmarshaler m tag wire bs of
             (ok, err, m', bs') \<Rightarrow>
               if ok then
                 Some (case err of
                         None \<Rightarrow> Inr (m', bs')
                       | Some e \<Rightarrow>
                           Inl (if e = ErrInternalBadWireType then MALFORMED_VARIANT else e))
               else None))"

definition save_EntityProfileDTO ::
  "'p EntityProfileDTO \<Rightarrow> byte list \<Rightarrow> 'p EntityProfileDTO" where
  "save_EntityProfileDTO m raw =
     m\<lparr>EntityProfileDTO.XXX_unrecognized := EntityProfileDTO.XXX_unrecognized m @ raw\<rparr>"

definition required_EntityProfileDTO ::
  "'p EntityProfileDTO \<Rightarrow> error + 'p EntityProfileDTO" where
  "required_EntityProfileDTO m =
     (if EntityProfileDTO.Id m = None then Inl (MISSING_REQUIRED_FIELD ''id'')
      else if DisplayName m = None then Inl (MISSING_REQUIRED_FIELD ''displayName'')
      else if EntityType m = None then Inl (MISSING_REQUIRED_FIELD ''entityType'')
      else Inr m)"

definition loop_EntityProfileDTO ::
  "(byte list \<Rightarrow> error + 'p) \<Rightarrow> 'p EntityProfileDTO \<Rightarrow> byte list \<Rightarrow>
   error + 'p EntityProfileDTO" where
  "loop_EntityProfileDTO decP m bs =
     unmarshal_loop (field_step (field_EntityProfileDTO decP) save_EntityProfileDTO) m bs"

definition Unmarshal_EntityProfileDTO ::
  "(byte list \<Rightarrow> error + 'p) \<Rightarrow> byte list \<Rightarrow> error + 'p EntityProfileDTO" where
  "Unmarshal_EntityProfileDTO decP bs =
     (case loop_EntityProfileDTO decP new_EntityProfileDTO bs of
        Inl e \<Rightarrow> Inl e
      | Inr m \<Rightarrow> required_EntityProfileDTO m)"

text \<open>
  Modelled from the spec: \<open>encode\<close> and \<open>decode\<close> of \<open>DeploymentProfileDTO\<close>, with the
  encoding and decoding of a \<open>ContextData\<close> as the parameters \<open>encC\<close> and \<open>decC\<close>.
\<close>

definition new_DeploymentProfileDTO :: "'c DeploymentProfileDTO" where
  "new_DeploymentProfileDTO =
     \<lparr>DeploymentProfileDTO.Id = None, ProfileName = None, ContextData = [], RelatedEntityProfileId = [],
      RelatedScopeId = [], XXX_unrecognized = []\<rparr>"

definition Marshal_DeploymentProfileDTO ::
  "('c \<Rightarrow> byte list) \<Rightarrow> 'c DeploymentProfileDTO \<Rightarrow> byte list" where
  "Marshal_DeploymentProfileDTO encC m =
     put_opt (put_string 1) (DeploymentProfileDTO.Id m)
     @ put_opt (put_string 2) (ProfileName m)
     @ put_rep (\<lambda>c. put_bytes 3 (encC c)) (ContextData m)
     @ put_rep (put_string 4) (RelatedEntityProfileId m)
     @ put_rep (put_string 5) (RelatedScopeId m)
     @ DeploymentProfileDTO.XXX_unrecognized m"

definition declared_DeploymentProfileDTO :: "nat \<Rightarrow> bool" where
  "declared_DeploymentProfileDTO tag = (1 \<le> tag \<and> tag \<le> 5)"

definition field_DeploymentProfileDTO ::
  "(byte list \<Rightarrow> error + 'c) \<Rightarrow> 'c DeploymentProfileDTO \<Rightarrow> nat \<Rightarrow> nat \<Rightarrow> byte list \<Rightarrow>
   (error + 'c DeploymentProfileDTO \<times> byte list) option" where
  "field_DeploymentProfileDTO decC m tag wire bs =
     (if tag = 1 then Some (get_string wire bs (\<lambda>v. m\<lparr>DeploymentProfileDTO.Id := Some v\<rparr>))
      else if tag = 2 then Some (get_string wire bs (\<lambda>v. m\<lparr>ProfileName := Some v\<rparr>))
      else if tag = 3 then
        Some (get_message wire bs decC (\<lambda>c. m\<lparr>ContextData := ContextData m @ [c]\<rparr>))
      else if tag = 4 then
        Some (get_string wire bs
                (\<lambda>v. m\<lparr>RelatedEntityProfileId := RelatedEntityProfileId m @ [v]\<rparr>))
      else if tag = 5 then
        Some (get_string wire bs (\<lambda>v. m\<lparr>RelatedScopeId := RelatedScopeId m @ [v]\<rparr>))
      else None)"

definition save_DeploymentProfileDTO ::
  "'c DeploymentProfileDTO \<Rightarrow> byte list \<Rightarrow> 'c DeploymentProfileDTO" where
  "save_DeploymentProfileDTO m raw =
     m\<lparr>DeploymentProfileDTO.XXX_unrecognized :=
         DeploymentProfileDTO.XXX_unrecognized m @ raw\<rparr>"

definition required_DeploymentProfileDTO ::
  "'c DeploymentProfileDTO \<Rightarrow> error + 'c DeploymentProfileDTO" where
  "required_DeploymentProfileDTO m =
     (if DeploymentProfileDTO.Id m = None then Inl (MISSING_REQUIRED_FIELD ''id'')
      else if ProfileName m = None then Inl (MISSING_REQUIRED_FIELD ''profileName'')
      else Inr m)"

definition loop_DeploymentProfileDTO ::
  "(byte list \<Rightarrow> error + 'c) \<Rightarrow> 'c DeploymentProfileDTO \<Rightarrow> byte list \<Rightarrow>
   error + 'c DeploymentProfileDTO" where
  "loop_DeploymentProfileDTO decC m bs =
     unmarshal_loop (field_step (field_DeploymentProfileDTO decC) save_DeploymentProfileDTO)
       m bs"

definition Unmarshal_DeploymentProfileDTO ::
  "(byte list \<Rightarrow> error + 'c) \<Rightarrow> byte list \<Rightarrow> error + 'c DeploymentProfileDTO" where
  "Unmarshal_DeploymentProfileDTO decC bs =
     (case loop_DeploymentProfileDTO decC new_DeploymentProfileDTO bs of
        Inl e \<Rightarrow> Inl e
      | Inr m \<Rightarrow> required_DeploymentProfileDTO m)"

section \<open>Observations on streams and messages\<close>

text \<open>
  The fields labelled \<open>req\<close> in the struct tags of the two aggregates, with the names
  the tags give them, and the name of the first of them whose number does not occur in
  a list of field numbers.
\<close>

definition first_missing :: "(nat \<times> string) list \<Rightarrow> nat list \<Rightarrow> string option" where
  "first_missing req ts = map_option snd (find (\<lambda>(t, n). t \<notin> set ts) req)"

definition required_fields_EntityProfileDTO :: "(nat \<times> string) list" where
  "required_fields_EntityProfileDTO = [(1, ''id''), (2, ''displayName''), (3, ''entityType'')]"

definition required_fields_DeploymentProfileDTO :: "(nat \<times> string) list" where
  "required_fields_DeploymentProfileDTO = [(1, ''id''), (2, ''profileName'')]"

text \<open>
  The field number under which the union of a message is encoded: 8 for the VM
  wrapper, 9 for the PM wrapper, none otherwise.  \<open>last_variant_tag\<close> is the last of
  the numbers 8 and 9 in a list of field numbers.
\<close>

definition variant_tag :: "'p EntityProfileDTO \<Rightarrow> nat option" where
  "variant_tag m =
     (case VMOrPMProfileData m of
        Some (Vm_ptr x) \<Rightarrow> Some 8
      | Some (Pm_ptr x) \<Rightarrow> Some 9
      | Some (Other_type T) \<Rightarrow> None
      | None \<Rightarrow> None)"

definition last_variant_tag :: "nat list \<Rightarrow> nat option" where
  "last_variant_tag ts =
     (case filter (\<lambda>t. t = 8 \<or> t = 9) ts of [] \<Rightarrow> None | x # xs \<Rightarrow> Some (last (x # xs)))"

text \<open>
  What one decoded field of number \<open>t\<close>, and what a sequence of fields of numbers
  \<open>ts\<close>, does to the presence of the required fields and to the union.
\<close>

definition step_effect ::
  "nat \<Rightarrow> 'p EntityProfileDTO \<Rightarrow> 'p EntityProfileDTO \<Rightarrow> bool" where
  "step_effect t m m1 \<longleftrightarrow>
     (EntityProfileDTO.Id m1 = None \<longleftrightarrow> EntityProfileDTO.Id m = None \<and> t \<noteq> 1)
     \<and> (DisplayName m1 = None \<longleftrightarrow> DisplayName m = None \<and> t \<noteq> 2)
     \<and> (EntityType m1 = None \<longleftrightarrow> EntityType m = None \<and> t \<noteq> 3)
     \<and> variant_tag m1 = (if t = 8 \<or> t = 9 then Some t else variant_tag m)"

definition loop_effect ::
  "nat list \<Rightarrow> 'p EntityProfileDTO \<Rightarrow> 'p EntityProfileDTO \<Rightarrow> bool" where
  "loop_effect ts m m' \<longleftrightarrow>
     (EntityProfileDTO.Id m' = None \<longleftrightarrow> EntityProfileDTO.Id m = None \<and> 1 \<notin> set ts)
     \<and> (DisplayName m' = None \<longleftrightarrow> DisplayName m = None \<and> 2 \<notin> set ts)
     \<and> (EntityType m' = None \<longleftrightarrow> EntityType m = None \<and> 3 \<notin> set ts)
     \<and> variant_tag m' =
         (case last_variant_tag ts of None \<Rightarrow> variant_tag m | Some t \<Rightarrow> Some t)"

definition step_effect_D ::
  "nat \<Rightarrow> 'c DeploymentProfileDTO \<Rightarrow> 'c DeploymentProfileDTO \<Rightarrow> bool" where
  "step_effect_D t m m1 \<longleftrightarrow>
     (DeploymentProfileDTO.Id m1 = None \<longleftrightarrow> DeploymentProfileDTO.Id m = None \<and> t \<noteq> 1)
     \<and> (ProfileName m1 = None \<longleftrightarrow> ProfileName m = None \<and> t \<noteq> 2)"

definition loop_effect_D ::
  "nat list \<Rightarrow> 'c DeploymentProfileDTO \<Rightarrow> 'c DeploymentProfileDTO \<Rightarrow> bool" where
  "loop_effect_D ts m m' \<longleftrightarrow>
     (DeploymentProfileDTO.Id m' = None \<longleftrightarrow> DeploymentProfileDTO.Id m = None \<and> 1 \<notin> set ts)
     \<and> (ProfileName m' = None \<longleftrightarrow> ProfileName m = None \<and> 2 \<notin> set ts)"



section \<open>Properties of the getters\<close>

text \<open>
  C8, as stated: \<open>GetEnableProvisionMatch\<close> and \<open>GetEnableResizeMatch\<close> return false
  exactly when the field is absent.  This fails: a field that is present and holds
  false is returned as false too.
\<close>

theorem C8_present_false_counterexample:
  "GetEnableProvisionMatch
     (Some ((new_EntityProfileDTO :: unit EntityProfileDTO)
              \<lparr>EnableProvisionMatch := Some False\<rparr>)) = False
   \<and> EnableProvisionMatch
       ((new_EntityProfileDTO :: unit EntityProfileDTO)
          \<lparr>EnableProvisionMatch := Some False\<rparr>) \<noteq> None"
  by (simp add: GetEnableProvisionMatch_def new_EntityProfileDTO_def)

text \<open>
  C8, amended: on every \<open>EntityProfileDTO\<close>, \<open>GetEnableProvisionMatch\<close> and
  \<open>GetEnableResizeMatch\<close> return false when the corresponding optional bool field is
  absent, and the stored value when it is present; so they return false exactly when
  the field is absent or holds false.
\<close>

theorem C8_bool_getters_default_false:
  "GetEnableProvisionMatch (Some m) =
     (case EnableProvisionMatch m of None \<Rightarrow> False | Some v \<Rightarrow> v)
   \<and> GetEnableResizeMatch (Some m) =
     (case EnableResizeMatch m of None \<Rightarrow> False | Some v \<Rightarrow> v)
   \<and> (GetEnableProvisionMatch (Some m) = False \<longleftrightarrow>
        EnableProvisionMatch m = None \<or> EnableProvisionMatch m = Some False)
   \<and> (GetEnableResizeMatch (Some m) = False \<longleftrightarrow>
        EnableResizeMatch m = None \<or> EnableResizeMatch m = Some False)"
  by (auto simp add: GetEnableProvisionMatch_def GetEnableResizeMatch_def
      split: option.splits)

text \<open>
  C9: every getter of the five message types, called on a nil receiver, returns the
  zero value of its result type: the empty string, 0, false, the nil slice, the nil
  interface or pointer, or the default enum constant.
\<close>

theorem C9_getters_total_on_nil:
  "GetVMOrPMProfileData None = None
   \<and> GetId None = []
   \<and> GetDisplayName None = []
   \<and> GetEntityType EntityDTO_SWITCH None = EntityDTO_SWITCH
   \<and> GetCommodityProfile None = []
   \<and> GetModel None = []
   \<and> GetVendor None = []
   \<and> GetDescription None = []
   \<and> GetVmProfileDTO None = Returns None
   \<and> GetPmProfileDTO None = Returns None
   \<and> GetEnableProvisionMatch None = False
   \<and> GetEnableResizeMatch None = False
   \<and> GetEntityProperties None = []
   \<and> GetNumVCPUs None = 0
   \<and> GetVCPUSpeed None = 0
   \<and> GetNumStorageConsumed None = 0
   \<and> GetNumCores None = 0
   \<and> GetCpuCoreSpeed None = 0
   \<and> GetCommodityType CommodityDTO_CLUSTER None = CommodityDTO_CLUSTER
   \<and> GetCapacity None = 0
   \<and> GetConsumedFactor None = 0
   \<and> GetConsumed None = 0
   \<and> GetReservation None = 0
   \<and> GetOverhead None = 0
   \<and> GetId_Deployment None = []
   \<and> GetProfileName None = []
   \<and> GetContextData None = []
   \<and> GetRelatedEntityProfileId None = []
   \<and> GetRelatedScopeId None = []"
  by (simp add: GetVMOrPMProfileData_def GetId_def GetDisplayName_def GetEntityType_def
      GetCommodityProfile_def GetModel_def GetVendor_def GetDescription_def
      GetVmProfileDTO_def GetPmProfileDTO_def GetEnableProvisionMatch_def
      GetEnableResizeMatch_def GetEntityProperties_def GetNumVCPUs_def GetVCPUSpeed_def
      GetNumStorageConsumed_def GetNumCores_def GetCpuCoreSpeed_def GetCommodityType_def
      GetCapacity_def GetConsumedFactor_def GetConsumed_def GetReservation_def
      GetOverhead_def GetId_Deployment_def GetProfileName_def GetContextData_def
      GetRelatedEntityProfileId_def GetRelatedScopeId_def)

text \<open>
  C10: \<open>GetEntityType\<close> returns \<open>EntityDTO_SWITCH\<close> when \<open>EntityType\<close> is absent and
  \<open>GetCommodityType\<close> returns \<open>CommodityDTO_CLUSTER\<close> when \<open>CommodityType\<close> is absent.
  The getter gives the same answer on a message whose field is absent and on the same
  message with the field set to that constant, although the two messages differ in
  the pointer field itself.
\<close>

theorem C10_enum_getters_collapse_presence:
  "GetEntityType EntityDTO_SWITCH (Some (m\<lparr>EntityType := None\<rparr>)) = EntityDTO_SWITCH
   \<and> GetEntityType EntityDTO_SWITCH (Some (m\<lparr>EntityType := Some EntityDTO_SWITCH\<rparr>)) =
       GetEntityType EntityDTO_SWITCH (Some (m\<lparr>EntityType := None\<rparr>))
   \<and> EntityType (m\<lparr>EntityType := Some EntityDTO_SWITCH\<rparr>) \<noteq>
       EntityType (m\<lparr>EntityType := None\<rparr>)
   \<and> GetCommodityType CommodityDTO_CLUSTER (Some (c\<lparr>CommodityType := None\<rparr>)) =
       CommodityDTO_CLUSTER
   \<and> GetCommodityType CommodityDTO_CLUSTER
         (Some (c\<lparr>CommodityType := Some CommodityDTO_CLUSTER\<rparr>)) =
       GetCommodityType CommodityDTO_CLUSTER (Some (c\<lparr>CommodityType := None\<rparr>))
   \<and> CommodityType (c\<lparr>CommodityType := Some CommodityDTO_CLUSTER\<rparr>) \<noteq>
       CommodityType (c\<lparr>CommodityType := None\<rparr>)"
  by (simp add: GetEntityType_def GetCommodityType_def)

section \<open>Lemmas about the wire format\<close>

lemma EncodeVarint_nonempty: "EncodeVarint x \<noteq> []"
  by (subst EncodeVarint.simps) simp

lemma unat_continuation_byte: "unat (of_nat (128 + x mod 128) :: byte) = 128 + x mod 128"
proof -
  have "unat (of_nat (128 + x mod 128) :: byte) = (128 + x mod 128) mod 2 ^ LENGTH(8)"
    by (rule unat_of_nat)
  also have "\<dots> = 128 + x mod 128"
  proof -
    have "x mod 128 < 128" by simp
    then have "128 + x mod 128 < 256" by linarith
    then show ?thesis by simp
  qed
  finally show ?thesis .
qed

lemma unat_last_byte: "x < 128 \<Longrightarrow> unat (of_nat x :: byte) = x"
  by (simp add: unat_of_nat)

lemma DecodeVarint_EncodeVarint: "DecodeVarint (EncodeVarint x @ r) = Some (x, r)"
proof (induction x rule: EncodeVarint.induct)
  case (1 x)
  show ?case
  proof (cases "x < 128")
    case True
    then have "EncodeVarint x = [of_nat x]" by (subst EncodeVarint.simps) simp
    with True show ?thesis by (simp add: unat_last_byte)
  next
    case False
    then have e: "EncodeVarint x = of_nat (128 + x mod 128) # EncodeVarint (x div 128)"
      by (subst EncodeVarint.simps) simp
    from False 1 have "DecodeVarint (EncodeVarint (x div 128) @ r) = Some (x div 128, r)"
      by simp
    then show ?thesis
      unfolding e by (simp add: unat_continuation_byte del: of_nat_add)
  qed
qed

lemma key_tag: "w < 8 \<Longrightarrow> drop_bit 3 (push_bit 3 t OR w) = (t::nat)"
proof -
  assume "w < 8"
  then have "w div 8 = 0" by simp
  then have "drop_bit 3 w = 0" by (simp add: drop_bit_eq_div)
  moreover have "drop_bit 3 (push_bit 3 t) = t" by (simp add: drop_bit_push_bit)
  ultimately show ?thesis by (simp only: drop_bit_or or.right_neutral)
qed

lemma key_wire: "w < 8 \<Longrightarrow> (push_bit 3 t OR w) AND 7 = (w::nat)"
proof -
  assume w: "w < 8"
  have "(push_bit 3 t OR w) AND 7 = take_bit 3 (push_bit 3 t OR w)"
    by (simp add: take_bit_eq_mask mask_eq_exp_minus_1)
  also have "\<dots> = take_bit 3 (push_bit 3 t) OR take_bit 3 w"
    by (rule take_bit_or)
  also have "take_bit 3 (push_bit 3 t) = 0"
    by (simp add: take_bit_push_bit)
  also have "take_bit 3 w = w" using w by (simp add: take_bit_eq_mod)
  finally show ?thesis by simp
qed


lemma unmarshal_loop_Nil: "unmarshal_loop step m [] = Inr m"
  by (subst unmarshal_loop.simps) simp

lemma field_loop_step:
  assumes "field_step known save m bs = Inr (m', rest)" and "length rest < length bs"
  shows "unmarshal_loop (field_step known save) m bs
         = unmarshal_loop (field_step known save) m' rest"
  using assms
  by (subst unmarshal_loop.simps) auto

lemma field_loop_error:
  assumes "bs \<noteq> []" and "field_step known save m bs = Inl e"
  shows "unmarshal_loop (field_step known save) m bs = Inl e"
  using assms
  by (subst unmarshal_loop.simps) simp

lemma field_step_key:
  assumes w: "w < 8" and k: "known m t w r = Some res"
  shows "field_step known save m (key t w @ r) = res"
proof -
  have d: "DecodeVarint (key t w @ r) = Some (push_bit 3 t OR w, r)"
    unfolding key_def by (rule DecodeVarint_EncodeVarint)
  show ?thesis
    unfolding field_step_def d
    by (simp only: key_tag [OF w] key_wire [OF w] k option.case prod.case)
qed

lemma length_key: "0 < length (key t w)"
  by (simp add: key_def EncodeVarint_nonempty)

lemma get_varint_EncodeVarint:
  "get_varint WireVarint (EncodeVarint v @ r) f = Inr (f v, r)"
  by (simp add: get_varint_def DecodeVarint_EncodeVarint)

lemma bytes_fixed32_fixed32_bytes: "bytes_fixed32 (fixed32_bytes w) = w"
  unfolding bytes_fixed32_def fixed32_bytes_def
  apply simp
  apply (rule bit_word_eqI)
  apply (auto simp add: bit_simps)
  subgoal for n by (cases "n < 24") auto
  done

lemma length_fixed32_bytes: "length (fixed32_bytes w) = 4"
  by (simp add: fixed32_bytes_def)

lemma get_fixed32_fixed32_bytes:
  "get_fixed32 WireFixed32 (fixed32_bytes w @ r) f = Inr (f w, r)"
  by (simp add: get_fixed32_def length_fixed32_bytes bytes_fixed32_fixed32_bytes)

lemma get_bytes_payload:
  "get_bytes WireBytes (EncodeVarint (length p) @ p @ r) f = Inr (f p, r)"
  by (simp add: get_bytes_def DecodeVarint_EncodeVarint)

lemma char_of_byte_of_char: "char_of_byte (byte_of_char c) = c"
  by (simp add: char_of_byte_def byte_of_char_def unat_of_nat)

lemma get_string_payload:
  "get_string WireBytes (EncodeVarint (length (map byte_of_char s)) @ map byte_of_char s @ r) f
   = Inr (f s, r)"
  by (simp only: get_string_def get_bytes_payload)
     (simp add: comp_def char_of_byte_of_char)

lemma get_message_payload:
  "dec p = Inr x \<Longrightarrow>
   get_message WireBytes (EncodeVarint (length p) @ p @ r) dec f = Inr (f x, r)"
  by (simp add: get_message_def DecodeVarint_EncodeVarint)

lemma loop_put_varint:
  assumes "\<And>r. known m t WireVarint r = Some (get_varint WireVarint r f)"
  shows "unmarshal_loop (field_step known save) m (put_varint t v @ rest)
         = unmarshal_loop (field_step known save) (f v) rest"
proof -
  have "WireVarint < 8" by (simp add: WireVarint_def)
  from field_step_key [where known = known and save = save and m = m and t = t
      and r = "EncodeVarint v @ rest", OF this assms]
  have "field_step known save m (key t WireVarint @ EncodeVarint v @ rest) = Inr (f v, rest)"
    by (simp add: get_varint_EncodeVarint)
  moreover have "length rest < length (key t WireVarint @ EncodeVarint v @ rest)"
    using length_key [of t WireVarint] by simp
  ultimately show ?thesis
    unfolding put_varint_def append_assoc by (rule field_loop_step)
qed

lemma loop_put_fixed32:
  assumes "\<And>r. known m t WireFixed32 r = Some (get_fixed32 WireFixed32 r f)"
  shows "unmarshal_loop (field_step known save) m (put_fixed32 t v @ rest)
         = unmarshal_loop (field_step known save) (f v) rest"
proof -
  have "WireFixed32 < 8" by (simp add: WireFixed32_def)
  from field_step_key [where known = known and save = save and m = m and t = t
      and r = "fixed32_bytes v @ rest", OF this assms]
  have "field_step known save m (key t WireFixed32 @ fixed32_bytes v @ rest) = Inr (f v, rest)"
    by (simp add: get_fixed32_fixed32_bytes)
  moreover have "length rest < length (key t WireFixed32 @ fixed32_bytes v @ rest)"
    using length_key [of t WireFixed32] by simp
  ultimately show ?thesis
    unfolding put_fixed32_def append_assoc by (rule field_loop_step)
qed

lemma loop_put_string:
  assumes "\<And>r. known m t WireBytes r = Some (get_string WireBytes r f)"
  shows "unmarshal_loop (field_step known save) m (put_string t v @ rest)
         = unmarshal_loop (field_step known save) (f v) rest"
proof -
  have "WireBytes < 8" by (simp add: WireBytes_def)
  from field_step_key [where known = known and save = save and m = m and t = t
      and r = "EncodeVarint (length (map byte_of_char v)) @ map byte_of_char v @ rest",
      OF this assms]
  have "field_step known save m
          (key t WireBytes @ EncodeVarint (length (map byte_of_char v)) @ map byte_of_char v @ rest)
        = Inr (f v, rest)"
    by (simp only: get_string_payload)
  moreover have "length rest < length (key t WireBytes
      @ EncodeVarint (length (map byte_of_char v)) @ map byte_of_char v @ rest)"
    using length_key [of t WireBytes] by simp
  ultimately show ?thesis
    unfolding put_string_def put_bytes_def append_assoc by (rule field_loop_step)
qed

lemma loop_put_message:
  assumes "\<And>r. known m t WireBytes r = Some (get_message WireBytes r dec f)"
    and "dec p = Inr x"
  shows "unmarshal_loop (field_step known save) m (put_bytes t p @ rest)
         = unmarshal_loop (field_step known save) (f x) rest"
proof -
  have "WireBytes < 8" by (simp add: WireBytes_def)
  from field_step_key [where known = known and save = save and m = m and t = t
      and r = "EncodeVarint (length p) @ p @ rest", OF this assms(1)]
  have "field_step known save m (key t WireBytes @ EncodeVarint (length p) @ p @ rest)
        = Inr (f x, rest)"
    by (simp only: get_message_payload [where dec = dec and p = p, OF assms(2)])
  moreover have "length rest < length (key t WireBytes @ EncodeVarint (length p) @ p @ rest)"
    using length_key [of t WireBytes] by simp
  ultimately show ?thesis
    unfolding put_bytes_def append_assoc by (rule field_loop_step)
qed


lemma DecodeVarint_suffix:
  "DecodeVarint bs = Some (v, r) \<Longrightarrow> \<exists>p. bs = p @ r \<and> p \<noteq> []"
proof (induction bs arbitrary: v r)
  case Nil
  then show ?case by simp
next
  case (Cons b bs)
  show ?case
  proof (cases "unat b < 128")
    case True
    with Cons.prems have "bs = r" by simp
    then have "b # bs = [b] @ r" by simp
    then show ?thesis by blast
  next
    case False
    with Cons.prems obtain v' where "DecodeVarint bs = Some (v', r)"
      by (auto split: option.splits)
    from Cons.IH [OF this] obtain p where "bs = p @ r" by blast
    then have "b # bs = (b # p) @ r" by simp
    then show ?thesis by blast
  qed
qed

lemma skip_field_suffix: "skip_field w r = Inr r' \<Longrightarrow> \<exists>p. r = p @ r'"
proof -
  assume a: "skip_field w r = Inr r'"
  have d: "\<And>n. \<exists>p. r = p @ drop n r"
    by (metis append_take_drop_id)
  show ?thesis
  proof (cases "DecodeVarint r")
    case None
    with a d show ?thesis
      by (auto simp add: skip_field_def split: if_splits)
  next
    case (Some x)
    obtain v r1 where x: "x = (v, r1)" by (cases x)
    from Some x obtain p where p: "r = p @ r1"
      using DecodeVarint_suffix by blast
    have "\<And>n. \<exists>q. r = q @ drop n r1"
    proof -
      fix n
      have "r = (p @ take n r1) @ drop n r1" using p by simp
      then show "\<exists>q. r = q @ drop n r1" by blast
    qed
    with a d Some x p show ?thesis
      by (auto simp add: skip_field_def split: if_splits)
  qed
qed

lemma loop_only_unknown_aux:
  assumes save_Nil: "\<And>m. save m [] = m"
    and save_append: "\<And>m a b. save (save m a) b = save m (a @ b)"
  shows "\<forall>m t w r. \<not> declared t \<longrightarrow> known m t w r = None \<Longrightarrow>
         only_unknown declared bs \<Longrightarrow>
         unmarshal_loop (field_step known save) m bs = Inr (save m bs)"
proof (induction declared bs arbitrary: m rule: only_unknown.induct)
  case (1 declared bs)
  note none = "1.prems"(1) and ou = "1.prems"(2)
  show ?case
  proof (cases "bs = []")
    case True
    then show ?thesis by (simp add: unmarshal_loop_Nil save_Nil)
  next
    case False
    from ou False obtain k r where d: "DecodeVarint bs = Some (k, r)"
      by (subst (asm) only_unknown.simps) (auto split: option.splits)
    from ou False d have nd: "\<not> declared (drop_bit 3 k)"
      by (subst (asm) only_unknown.simps) (auto split: if_splits)
    from ou False d nd obtain r' where s: "skip_field (k AND 7) r = Inr r'"
      by (subst (asm) only_unknown.simps) (auto split: sum.splits)
    from ou False d nd s have l: "length r' < length bs"
      by (subst (asm) only_unknown.simps) (auto split: if_splits)
    from ou False d nd s l have u: "only_unknown declared r'"
      by (subst (asm) only_unknown.simps) auto
    from DecodeVarint_suffix [OF d] obtain p where p: "bs = p @ r" by blast
    from skip_field_suffix [OF s] obtain q where q: "r = q @ r'" by blast
    have raw: "take (length bs - length r') bs = p @ q" using p q by simp
    from none nd have kn: "known m (drop_bit 3 k) (k AND 7) r = None" by blast
    have st: "field_step known save m bs = Inr (save m (p @ q), r')"
      by (simp add: field_step_def d kn s raw)
    have "unmarshal_loop (field_step known save) m bs
          = unmarshal_loop (field_step known save) (save m (p @ q)) r'"
      by (rule field_loop_step [OF st l])
    also have "\<dots> = Inr (save (save m (p @ q)) r')"
      by (rule "1.IH" [OF False d refl nd s l none u])
    also have "save (save m (p @ q)) r' = save m bs"
      using p q by (simp add: save_append)
    finally show ?thesis .
  qed
qed

lemma loop_only_unknown:
  assumes "\<And>m t w r. \<not> declared t \<Longrightarrow> known m t w r = None"
    and "\<And>m. save m [] = m"
    and "\<And>m a b. save (save m a) b = save m (a @ b)"
    and "only_unknown declared bs"
  shows "unmarshal_loop (field_step known save) m bs = Inr (save m bs)"
  using loop_only_unknown_aux [where save = save and known = known and declared = declared
      and bs = bs and m = m, OF assms(2) assms(3) _ assms(4)] assms(1)
  by blast

lemma varint_to_int32_int32_to_varint: "varint_to_int32 (int32_to_varint x) = x"
  unfolding varint_to_int32_def int32_to_varint_def
  apply (rule bit_word_eqI)
  apply (auto simp add: bit_simps)
  done

lemma varint_to_bool_bool_to_varint: "varint_to_bool (bool_to_varint b) = b"
  by (simp add: varint_to_bool_def bool_to_varint_def)

lemma loop_opt_int32:
  assumes "\<And>r. known m t WireVarint r
                = Some (get_varint WireVarint r (\<lambda>v. upd (Some (varint_to_int32 v))))"
    and "upd None = m"
  shows "unmarshal_loop (field_step known save) m
           (put_opt (\<lambda>v. put_varint t (int32_to_varint v)) x @ rest)
         = unmarshal_loop (field_step known save) (upd x) rest"
proof (cases x)
  case None
  then show ?thesis by (simp add: put_opt_def assms(2))
next
  case (Some v)
  then show ?thesis
    by (simp add: put_opt_def loop_put_varint [where known = known and m = m, OF assms(1)]
        varint_to_int32_int32_to_varint)
qed

lemma loop_opt_bool:
  assumes "\<And>r. known m t WireVarint r
                = Some (get_varint WireVarint r (\<lambda>v. upd (Some (varint_to_bool v))))"
    and "upd None = m"
  shows "unmarshal_loop (field_step known save) m
           (put_opt (\<lambda>v. put_varint t (bool_to_varint v)) x @ rest)
         = unmarshal_loop (field_step known save) (upd x) rest"
proof (cases x)
  case None
  then show ?thesis by (simp add: put_opt_def assms(2))
next
  case (Some v)
  then show ?thesis
    by (simp add: put_opt_def loop_put_varint [where known = known and m = m, OF assms(1)]
        varint_to_bool_bool_to_varint)
qed

lemma loop_opt_fixed32:
  assumes "\<And>r. known m t WireFixed32 r
                = Some (get_fixed32 WireFixed32 r (\<lambda>v. upd (Some v)))"
    and "upd None = m"
  shows "unmarshal_loop (field_step known save) m (put_opt (put_fixed32 t) x @ rest)
         = unmarshal_loop (field_step known save) (upd x) rest"
proof (cases x)
  case None
  then show ?thesis by (simp add: put_opt_def assms(2))
next
  case (Some v)
  then show ?thesis
    by (simp add: put_opt_def loop_put_fixed32 [where known = known and m = m, OF assms(1)])
qed

lemma loop_opt_string:
  assumes "\<And>r. known m t WireBytes r
                = Some (get_string WireBytes r (\<lambda>v. upd (Some v)))"
    and "upd None = m"
  shows "unmarshal_loop (field_step known save) m (put_opt (put_string t) x @ rest)
         = unmarshal_loop (field_step known save) (upd x) rest"
proof (cases x)
  case None
  then show ?thesis by (simp add: put_opt_def assms(2))
next
  case (Some v)
  then show ?thesis
    by (simp add: put_opt_def loop_put_string [where known = known and m = m, OF assms(1)])
qed

lemma field_VMProfileDTO_undeclared:
  "\<not> declared_VMProfileDTO t \<Longrightarrow> field_VMProfileDTO m t w r = None"
  by (simp add: declared_VMProfileDTO_def field_VMProfileDTO_def)

lemma roundtrip_VMProfileDTO:
  assumes "only_unknown declared_VMProfileDTO (EntityProfileDTO_VMProfileDTO.XXX_unrecognized m)"
  shows "Unmarshal_VMProfileDTO (Marshal_VMProfileDTO m) = Inr m"
proof -
  let ?S = "field_step field_VMProfileDTO save_VMProfileDTO"
  let ?u = "EntityProfileDTO_VMProfileDTO.XXX_unrecognized m"
  have s1: "unmarshal_loop ?S new_VMProfileDTO
              (put_opt (\<lambda>v. put_varint 1 (int32_to_varint v)) (NumVCPUs m) @ R)
            = unmarshal_loop ?S (new_VMProfileDTO\<lparr>NumVCPUs := NumVCPUs m\<rparr>) R" for R
    by (rule loop_opt_int32 [where upd = "\<lambda>x. new_VMProfileDTO\<lparr>NumVCPUs := x\<rparr>"])
       (simp_all add: field_VMProfileDTO_def new_VMProfileDTO_def)
  have s2: "unmarshal_loop ?S (new_VMProfileDTO\<lparr>NumVCPUs := NumVCPUs m\<rparr>)
              (put_opt (put_fixed32 2) (VCPUSpeed m) @ R)
            = unmarshal_loop ?S
                (new_VMProfileDTO\<lparr>NumVCPUs := NumVCPUs m, VCPUSpeed := VCPUSpeed m\<rparr>) R" for R
    by (rule loop_opt_fixed32
          [where upd = "\<lambda>x. new_VMProfileDTO\<lparr>NumVCPUs := NumVCPUs m, VCPUSpeed := x\<rparr>"])
       (simp_all add: field_VMProfileDTO_def new_VMProfileDTO_def)
  have s3: "unmarshal_loop ?S
              (new_VMProfileDTO\<lparr>NumVCPUs := NumVCPUs m, VCPUSpeed := VCPUSpeed m\<rparr>)
              (put_opt (\<lambda>v. put_varint 3 (int32_to_varint v)) (NumStorageConsumed m) @ R)
            = unmarshal_loop ?S
                (new_VMProfileDTO\<lparr>NumVCPUs := NumVCPUs m, VCPUSpeed := VCPUSpeed m,
                   NumStorageConsumed := NumStorageConsumed m\<rparr>) R" for R
    by (rule loop_opt_int32
          [where upd = "\<lambda>x. new_VMProfileDTO\<lparr>NumVCPUs := NumVCPUs m, VCPUSpeed := VCPUSpeed m,
                   NumStorageConsumed := x\<rparr>"])
       (simp_all add: field_VMProfileDTO_def new_VMProfileDTO_def)
  have s4: "unmarshal_loop ?S m0 ?u = Inr (save_VMProfileDTO m0 ?u)" for m0
    by (rule loop_only_unknown [where declared = declared_VMProfileDTO])
       (simp_all add: field_VMProfileDTO_undeclared save_VMProfileDTO_def assms)
  show ?thesis
    unfolding Unmarshal_VMProfileDTO_def Marshal_VMProfileDTO_def s1 s2 s3 s4
    by (simp add: save_VMProfileDTO_def new_VMProfileDTO_def)
qed

lemma get_varint_Inr:
  "get_varint w r f = Inr (x, r') \<Longrightarrow> skip_field w r = Inr r' \<and> (\<exists>v. x = f v)"
  by (auto simp add: get_varint_def skip_field_def split: if_splits option.splits)

lemma get_fixed32_Inr:
  "get_fixed32 w r f = Inr (x, r') \<Longrightarrow> skip_field w r = Inr r' \<and> (\<exists>v. x = f v)"
  by (auto simp add: get_fixed32_def skip_field_def WireFixed32_def WireVarint_def
      WireFixed64_def WireBytes_def split: if_splits option.splits)

lemma get_bytes_Inr:
  "get_bytes w r f = Inr (x, r') \<Longrightarrow> skip_field w r = Inr r' \<and> (\<exists>v. x = f v)"
  by (auto simp add: get_bytes_def skip_field_def WireFixed32_def WireVarint_def
      WireFixed64_def WireBytes_def split: if_splits option.splits)

lemma get_string_Inr:
  "get_string w r f = Inr (x, r') \<Longrightarrow> skip_field w r = Inr r' \<and> (\<exists>v. x = f v)"
  unfolding get_string_def by (drule get_bytes_Inr) auto

lemma get_message_Inr:
  "get_message w r dec f = Inr (x, r') \<Longrightarrow> skip_field w r = Inr r' \<and> (\<exists>v. x = f v)"
  by (auto simp add: get_message_def skip_field_def WireFixed32_def WireVarint_def
      WireFixed64_def WireBytes_def split: if_splits option.splits sum.splits)

lemma DecodeMessage_None:
  "DecodeMessage dec msg b = (None, x, b') \<Longrightarrow> skip_field WireBytes b = Inr b'"
  by (auto simp add: DecodeMessage_def skip_field_def WireFixed32_def WireVarint_def
      WireFixed64_def WireBytes_def split: if_splits option.splits sum.splits)

lemma struct_field_EntityProfileDTO_Inr:
  assumes "struct_field_EntityProfileDTO decP m t w r = Some (Inr (m1, r'))"
  shows "skip_field w r = Inr r' \<and> step_effect t m m1"
proof -
  from assms have t: "t = 1 \<or> t = 2 \<or> t = 3 \<or> t = 4 \<or> t = 5 \<or> t = 6 \<or> t = 7
      \<or> t = 10 \<or> t = 11 \<or> t = 12"
    by (auto simp add: struct_field_EntityProfileDTO_def split: if_splits)
  then show ?thesis
  proof (elim disjE)
    assume "t = 1"
    with assms show ?thesis
      by (auto simp add: struct_field_EntityProfileDTO_def step_effect_def variant_tag_def
          dest!: get_string_Inr)
  next
    assume "t = 2"
    with assms show ?thesis
      by (auto simp add: struct_field_EntityProfileDTO_def step_effect_def variant_tag_def
          dest!: get_string_Inr)
  next
    assume "t = 3"
    with assms show ?thesis
      by (auto simp add: struct_field_EntityProfileDTO_def step_effect_def variant_tag_def
          dest!: get_varint_Inr)
  next
    assume "t = 4"
    with assms show ?thesis
      by (auto simp add: struct_field_EntityProfileDTO_def step_effect_def variant_tag_def
          dest!: get_message_Inr)
  next
    assume "t = 5"
    with assms show ?thesis
      by (auto simp add: struct_field_EntityProfileDTO_def step_effect_def variant_tag_def
          dest!: get_string_Inr)
  next
    assume "t = 6"
    with assms show ?thesis
      by (auto simp add: struct_field_EntityProfileDTO_def step_effect_def variant_tag_def
          dest!: get_string_Inr)
  next
    assume "t = 7"
    with assms show ?thesis
      by (auto simp add: struct_field_EntityProfileDTO_def step_effect_def variant_tag_def
          dest!: get_string_Inr)
  next
    assume "t = 10"
    with assms show ?thesis
      by (auto simp add: struct_field_EntityProfileDTO_def step_effect_def variant_tag_def
          dest!: get_varint_Inr)
  next
    assume "t = 11"
    with assms show ?thesis
      by (auto simp add: struct_field_EntityProfileDTO_def step_effect_def variant_tag_def
          dest!: get_varint_Inr)
  next
    assume "t = 12"
    with assms show ?thesis
      by (auto simp add: struct_field_EntityProfileDTO_def step_effect_def variant_tag_def
          dest!: get_message_Inr)
  qed
qed

lemma struct_field_EntityProfileDTO_None:
  "struct_field_EntityProfileDTO decP m t w r = None \<longleftrightarrow>
   \<not> (t = 1 \<or> t = 2 \<or> t = 3 \<or> t = 4 \<or> t = 5 \<or> t = 6 \<or> t = 7 \<or> t = 10 \<or> t = 11 \<or> t = 12)"
  by (auto simp add: struct_field_EntityProfileDTO_def)

lemma OneofUnmarshaler_ok:
  assumes "EntityProfileDTO_OneofUnmarshaler m t w r = (True, None, m1, r')"
  shows "(t = 8 \<or> t = 9) \<and> skip_field w r = Inr r' \<and> step_effect t m m1"
proof -
  from assms have t: "t = 8 \<or> t = 9"
    by (auto simp add: EntityProfileDTO_OneofUnmarshaler_def split: if_splits)
  from assms t have w: "w = WireBytes"
    by (auto simp add: EntityProfileDTO_OneofUnmarshaler_def split: if_splits)
  from t show ?thesis
  proof
    assume "t = 8"
    with assms w show ?thesis
      by (auto simp add: EntityProfileDTO_OneofUnmarshaler_def step_effect_def variant_tag_def
          split: prod.splits dest!: DecodeMessage_None)
  next
    assume "t = 9"
    with assms w show ?thesis
      by (auto simp add: EntityProfileDTO_OneofUnmarshaler_def step_effect_def variant_tag_def
          split: prod.splits dest!: DecodeMessage_None)
  qed
qed

lemma OneofUnmarshaler_not_ok:
  "EntityProfileDTO_OneofUnmarshaler m t w r = (False, err, m1, r') \<Longrightarrow> t \<noteq> 8 \<and> t \<noteq> 9"
  by (auto simp add: EntityProfileDTO_OneofUnmarshaler_def split: if_splits prod.splits)

lemma field_EntityProfileDTO_Inr:
  assumes "field_EntityProfileDTO decP m t w r = Some (Inr (m1, r'))"
  shows "skip_field w r = Inr r' \<and> step_effect t m m1"
proof (cases "struct_field_EntityProfileDTO decP m t w r")
  case (Some res)
  with assms have "res = Inr (m1, r')" by (simp add: field_EntityProfileDTO_def)
  with Some show ?thesis by (simp add: struct_field_EntityProfileDTO_Inr)
next
  case None
  obtain ok err m2 r2 where u: "EntityProfileDTO_OneofUnmarshaler m t w r = (ok, err, m2, r2)"
    by (cases "EntityProfileDTO_OneofUnmarshaler m t w r") auto
  from assms None u have "ok" and "err = None" and "m2 = m1" and "r2 = r'"
    by (auto simp add: field_EntityProfileDTO_def split: if_splits option.splits)
  with u OneofUnmarshaler_ok [of m t w r m1 r'] show ?thesis by simp
qed

lemma field_EntityProfileDTO_None:
  assumes "field_EntityProfileDTO decP m t w r = None"
  shows "t \<noteq> 1 \<and> t \<noteq> 2 \<and> t \<noteq> 3 \<and> t \<noteq> 8 \<and> t \<noteq> 9"
proof -
  from assms have n: "struct_field_EntityProfileDTO decP m t w r = None"
    by (auto simp add: field_EntityProfileDTO_def split: option.splits)
  obtain ok err m2 r2 where u: "EntityProfileDTO_OneofUnmarshaler m t w r = (ok, err, m2, r2)"
    by (cases "EntityProfileDTO_OneofUnmarshaler m t w r") auto
  from assms n u have "\<not> ok"
    by (auto simp add: field_EntityProfileDTO_def split: if_splits)
  with u OneofUnmarshaler_not_ok [of m t w r err m2 r2] n show ?thesis
    by (auto simp add: struct_field_EntityProfileDTO_None)
qed

lemma field_step_EntityProfileDTO_Inr:
  assumes "field_step (field_EntityProfileDTO decP) save_EntityProfileDTO m bs = Inr (m1, r')"
  shows "\<exists>k r. DecodeVarint bs = Some (k, r) \<and> skip_field (k AND 7) r = Inr r'
           \<and> step_effect (drop_bit 3 k) m m1"
proof -
  from assms obtain k r where d: "DecodeVarint bs = Some (k, r)"
    by (auto simp add: field_step_def split: option.splits)
  show ?thesis
  proof (cases "field_EntityProfileDTO decP m (drop_bit 3 k) (k AND 7) r")
    case None
    from field_EntityProfileDTO_None [OF None] assms d None
    have "skip_field (k AND 7) r = Inr r' \<and> step_effect (drop_bit 3 k) m m1"
      by (auto simp add: field_step_def step_effect_def save_EntityProfileDTO_def
          variant_tag_def split: sum.splits)
    with d show ?thesis by blast
  next
    case (Some res)
    with assms d have "res = Inr (m1, r')" by (simp add: field_step_def)
    with Some field_EntityProfileDTO_Inr have
      "skip_field (k AND 7) r = Inr r' \<and> step_effect (drop_bit 3 k) m m1" by blast
    with d show ?thesis by blast
  qed
qed

lemma field_loop_Inr:
  assumes "unmarshal_loop (field_step known save) m bs = Inr m'" and "bs \<noteq> []"
  shows "\<exists>m1 r'. field_step known save m bs = Inr (m1, r') \<and> length r' < length bs
           \<and> unmarshal_loop (field_step known save) m1 r' = Inr m'"
  using assms
  by (subst (asm) unmarshal_loop.simps) (auto split: sum.splits if_splits)

lemma field_numbers_Nil: "field_numbers [] = Some []"
  by (subst field_numbers.simps) simp

lemma field_numbers_step:
  assumes "DecodeVarint bs = Some (k, r)" and "skip_field (k AND 7) r = Inr r'"
    and "length r' < length bs"
  shows "field_numbers bs = map_option ((#) (drop_bit 3 k)) (field_numbers r')"
  using assms by (subst field_numbers.simps) auto

lemma last_variant_tag_Nil: "last_variant_tag [] = None"
  by (simp add: last_variant_tag_def)

lemma last_variant_tag_Cons:
  "last_variant_tag (t # ts) =
     (case last_variant_tag ts of
        Some x \<Rightarrow> Some x
      | None \<Rightarrow> if t = 8 \<or> t = 9 then Some t else None)"
  by (auto simp add: last_variant_tag_def split: list.splits)

lemma loop_EntityProfileDTO_effect:
  "unmarshal_loop (field_step (field_EntityProfileDTO decP) save_EntityProfileDTO) m bs = Inr m'
   \<Longrightarrow> \<exists>ts. field_numbers bs = Some ts \<and> loop_effect ts m m'"
proof (induction bs arbitrary: m rule: length_induct)
  case (1 bs)
  show ?case
  proof (cases "bs = []")
    case True
    with "1.prems" have "m' = m" by (simp add: unmarshal_loop_Nil)
    with True show ?thesis
      by (simp add: field_numbers_Nil loop_effect_def last_variant_tag_Nil)
  next
    case False
    from field_loop_Inr [OF "1.prems" False] obtain m1 r' where
      st: "field_step (field_EntityProfileDTO decP) save_EntityProfileDTO m bs = Inr (m1, r')"
      and l: "length r' < length bs"
      and lp: "unmarshal_loop (field_step (field_EntityProfileDTO decP) save_EntityProfileDTO)
                 m1 r' = Inr m'"
      by blast
    from field_step_EntityProfileDTO_Inr [OF st] obtain k r where
      d: "DecodeVarint bs = Some (k, r)" and sk: "skip_field (k AND 7) r = Inr r'"
      and e1: "step_effect (drop_bit 3 k) m m1"
      by blast
    from "1.IH" l lp obtain ts where
      fn: "field_numbers r' = Some ts" and e2: "loop_effect ts m1 m'"
      by blast
    have "field_numbers bs = Some (drop_bit 3 k # ts)"
      by (simp add: field_numbers_step [OF d sk l] fn)
    moreover have "loop_effect (drop_bit 3 k # ts) m m'"
    proof -
      let ?t = "drop_bit 3 k"
      from e1 have a1: "EntityProfileDTO.Id m1 = None \<longleftrightarrow> EntityProfileDTO.Id m = None \<and> ?t \<noteq> 1"
        and a2: "DisplayName m1 = None \<longleftrightarrow> DisplayName m = None \<and> ?t \<noteq> 2"
        and a3: "EntityType m1 = None \<longleftrightarrow> EntityType m = None \<and> ?t \<noteq> 3"
        and a4: "variant_tag m1 = (if ?t = 8 \<or> ?t = 9 then Some ?t else variant_tag m)"
        by (simp_all add: step_effect_def)
      from e2 have b1: "EntityProfileDTO.Id m' = None \<longleftrightarrow> EntityProfileDTO.Id m1 = None \<and> 1 \<notin> set ts"
        and b2: "DisplayName m' = None \<longleftrightarrow> DisplayName m1 = None \<and> 2 \<notin> set ts"
        and b3: "EntityType m' = None \<longleftrightarrow> EntityType m1 = None \<and> 3 \<notin> set ts"
        and b4: "variant_tag m' =
                   (case last_variant_tag ts of None \<Rightarrow> variant_tag m1 | Some t \<Rightarrow> Some t)"
        by (simp_all add: loop_effect_def)
      have c1: "EntityProfileDTO.Id m' = None \<longleftrightarrow>
                EntityProfileDTO.Id m = None \<and> 1 \<notin> set (?t # ts)"
        using a1 b1 by auto
      have c2: "DisplayName m' = None \<longleftrightarrow> DisplayName m = None \<and> 2 \<notin> set (?t # ts)"
        using a2 b2 by auto
      have c3: "EntityType m' = None \<longleftrightarrow> EntityType m = None \<and> 3 \<notin> set (?t # ts)"
        using a3 b3 by auto
      have c4: "variant_tag m' =
                  (case last_variant_tag (?t # ts) of
                     None \<Rightarrow> variant_tag m | Some t \<Rightarrow> Some t)"
        using a4 b4 by (cases "last_variant_tag ts") (simp_all add: last_variant_tag_Cons)
      show ?thesis
        unfolding loop_effect_def using c1 c2 c3 c4 by blast
    qed
    ultimately show ?thesis by blast
  qed
qed

lemma field_DeploymentProfileDTO_Inr:
  assumes "field_DeploymentProfileDTO decC m t w r = Some (Inr (m1, r'))"
  shows "skip_field w r = Inr r' \<and> step_effect_D t m m1"
proof -
  from assms have t: "t = 1 \<or> t = 2 \<or> t = 3 \<or> t = 4 \<or> t = 5"
    by (auto simp add: field_DeploymentProfileDTO_def split: if_splits)
  then show ?thesis
  proof (elim disjE)
    assume "t = 1"
    with assms show ?thesis
      by (auto simp add: field_DeploymentProfileDTO_def step_effect_D_def
          dest!: get_string_Inr)
  next
    assume "t = 2"
    with assms show ?thesis
      by (auto simp add: field_DeploymentProfileDTO_def step_effect_D_def
          dest!: get_string_Inr)
  next
    assume "t = 3"
    with assms show ?thesis
      by (auto simp add: field_DeploymentProfileDTO_def step_effect_D_def
          dest!: get_message_Inr)
  next
    assume "t = 4"
    with assms show ?thesis
      by (auto simp add: field_DeploymentProfileDTO_def step_effect_D_def
          dest!: get_string_Inr)
  next
    assume "t = 5"
    with assms show ?thesis
      by (auto simp add: field_DeploymentProfileDTO_def step_effect_D_def
          dest!: get_string_Inr)
  qed
qed

lemma field_DeploymentProfileDTO_None:
  "field_DeploymentProfileDTO decC m t w r = None \<Longrightarrow> t \<noteq> 1 \<and> t \<noteq> 2"
  by (auto simp add: field_DeploymentProfileDTO_def split: if_splits)

lemma field_step_DeploymentProfileDTO_Inr:
  assumes "field_step (field_DeploymentProfileDTO decC) save_DeploymentProfileDTO m bs
           = Inr (m1, r')"
  shows "\<exists>k r. DecodeVarint bs = Some (k, r) \<and> skip_field (k AND 7) r = Inr r'
           \<and> step_effect_D (drop_bit 3 k) m m1"
proof -
  from assms obtain k r where d: "DecodeVarint bs = Some (k, r)"
    by (auto simp add: field_step_def split: option.splits)
  show ?thesis
  proof (cases "field_DeploymentProfileDTO decC m (drop_bit 3 k) (k AND 7) r")
    case None
    from field_DeploymentProfileDTO_None [OF None] assms d None
    have "skip_field (k AND 7) r = Inr r' \<and> step_effect_D (drop_bit 3 k) m m1"
      by (auto simp add: field_step_def step_effect_D_def save_DeploymentProfileDTO_def
          split: sum.splits)
    with d show ?thesis by blast
  next
    case (Some res)
    with assms d have "res = Inr (m1, r')" by (simp add: field_step_def)
    with Some field_DeploymentProfileDTO_Inr have
      "skip_field (k AND 7) r = Inr r' \<and> step_effect_D (drop_bit 3 k) m m1" by blast
    with d show ?thesis by blast
  qed
qed

lemma loop_DeploymentProfileDTO_effect:
  "unmarshal_loop (field_step (field_DeploymentProfileDTO decC) save_DeploymentProfileDTO) m bs
     = Inr m'
   \<Longrightarrow> \<exists>ts. field_numbers bs = Some ts \<and> loop_effect_D ts m m'"
proof (induction bs arbitrary: m rule: length_induct)
  case (1 bs)
  show ?case
  proof (cases "bs = []")
    case True
    with "1.prems" have "m' = m" by (simp add: unmarshal_loop_Nil)
    with True show ?thesis
      by (simp add: field_numbers_Nil loop_effect_D_def)
  next
    case False
    from field_loop_Inr [OF "1.prems" False] obtain m1 r' where
      st: "field_step (field_DeploymentProfileDTO decC) save_DeploymentProfileDTO m bs
           = Inr (m1, r')"
      and l: "length r' < length bs"
      and lp: "unmarshal_loop
                 (field_step (field_DeploymentProfileDTO decC) save_DeploymentProfileDTO)
                 m1 r' = Inr m'"
      by blast
    from field_step_DeploymentProfileDTO_Inr [OF st] obtain k r where
      d: "DecodeVarint bs = Some (k, r)" and sk: "skip_field (k AND 7) r = Inr r'"
      and e1: "step_effect_D (drop_bit 3 k) m m1"
      by blast
    from "1.IH" l lp obtain ts where
      fn: "field_numbers r' = Some ts" and e2: "loop_effect_D ts m1 m'"
      by blast
    have "field_numbers bs = Some (drop_bit 3 k # ts)"
      by (simp add: field_numbers_step [OF d sk l] fn)
    moreover have "loop_effect_D (drop_bit 3 k # ts) m m'"
    proof -
      let ?t = "drop_bit 3 k"
      from e1 have a1: "DeploymentProfileDTO.Id m1 = None \<longleftrightarrow>
                        DeploymentProfileDTO.Id m = None \<and> ?t \<noteq> 1"
        and a2: "ProfileName m1 = None \<longleftrightarrow> ProfileName m = None \<and> ?t \<noteq> 2"
        by (simp_all add: step_effect_D_def)
      from e2 have b1: "DeploymentProfileDTO.Id m' = None \<longleftrightarrow>
                        DeploymentProfileDTO.Id m1 = None \<and> 1 \<notin> set ts"
        and b2: "ProfileName m' = None \<longleftrightarrow> ProfileName m1 = None \<and> 2 \<notin> set ts"
        by (simp_all add: loop_effect_D_def)
      have c1: "DeploymentProfileDTO.Id m' = None \<longleftrightarrow>
                DeploymentProfileDTO.Id m = None \<and> 1 \<notin> set (?t # ts)"
        using a1 b1 by auto
      have c2: "ProfileName m' = None \<longleftrightarrow> ProfileName m = None \<and> 2 \<notin> set (?t # ts)"
        using a2 b2 by auto
      show ?thesis
        unfolding loop_effect_D_def using c1 c2 by blast
    qed
    ultimately show ?thesis by blast
  qed
qed

lemma field_numbers_key:
  assumes "w < 8" and "skip_field w (p @ rest) = Inr rest"
  shows "field_numbers (key t w @ p @ rest) = map_option ((#) t) (field_numbers rest)"
proof -
  have d: "DecodeVarint (key t w @ p @ rest) = Some (push_bit 3 t OR w, p @ rest)"
    unfolding key_def by (rule DecodeVarint_EncodeVarint)
  have s: "skip_field ((push_bit 3 t OR w) AND 7) (p @ rest) = Inr rest"
    by (simp only: key_wire [OF assms(1)] assms(2))
  have l: "length rest < length (key t w @ p @ rest)"
    using length_key [of t w] by simp
  show ?thesis
    by (simp only: field_numbers_step [OF d s l] key_tag [OF assms(1)])
qed


lemma field_numbers_put_fixed32:
  "field_numbers (put_fixed32 t v @ rest) = map_option ((#) t) (field_numbers rest)"
proof -
  have "skip_field WireFixed32 (fixed32_bytes v @ rest) = Inr rest"
    by (simp add: skip_field_def length_fixed32_bytes WireFixed32_def WireVarint_def
        WireFixed64_def WireBytes_def)
  from field_numbers_key [OF _ this, of t] show ?thesis
    by (simp add: put_fixed32_def WireFixed32_def)
qed




lemma map_option_append_append:
  "map_option ((@) ts) (map_option ((@) us) x) = map_option ((@) (ts @ us)) x"
  by (cases x) simp_all









section \<open>Properties of the oneof functions\<close>

text \<open>
  C4: a field whose number is 8 or 9 and whose wire type is not the length-delimited
  one is a decode error.  The oneof unmarshaler reports the field as handled, returns
  the bad-wire-type error and leaves the message and the buffer as they were; the
  decoding of the message ends there with \<open>MALFORMED_VARIANT\<close>, whatever was decoded
  before, and the field is not kept as an unknown field.
\<close>

theorem C4_variant_bad_wire_type:
  assumes "tag = 8 \<or> tag = 9" and "wire \<noteq> WireBytes"
    and "DecodeVarint bs = Some (k, b)" and "drop_bit 3 k = tag" and "k AND 7 = wire"
  shows "EntityProfileDTO_OneofUnmarshaler m tag wire b
           = (True, Some ErrInternalBadWireType, m, b)
         \<and> field_step (field_EntityProfileDTO decP) save_EntityProfileDTO m bs
           = Inl MALFORMED_VARIANT
         \<and> loop_EntityProfileDTO decP m bs = Inl MALFORMED_VARIANT
         \<and> Unmarshal_EntityProfileDTO decP bs = Inl MALFORMED_VARIANT"
proof -
  have u: "EntityProfileDTO_OneofUnmarshaler m' tag wire b
           = (True, Some ErrInternalBadWireType, m', b)" for m' :: "'a EntityProfileDTO"
    using assms(1,2) by (auto simp add: EntityProfileDTO_OneofUnmarshaler_def)
  have sf: "struct_field_EntityProfileDTO decP m' tag wire b = None"
    for m' :: "'a EntityProfileDTO"
    using assms(1) by (auto simp add: struct_field_EntityProfileDTO_def)
  have f: "field_EntityProfileDTO decP m' tag wire b = Some (Inl MALFORMED_VARIANT)"
    for m' :: "'a EntityProfileDTO"
    by (simp add: field_EntityProfileDTO_def sf u)
  have st: "field_step (field_EntityProfileDTO decP) save_EntityProfileDTO m' bs
            = Inl MALFORMED_VARIANT" for m' :: "'a EntityProfileDTO"
    by (simp add: field_step_def assms(3,4,5) f)
  from assms(3) have ne: "bs \<noteq> []" by auto
  have l: "loop_EntityProfileDTO decP m' bs = Inl MALFORMED_VARIANT"
    for m' :: "'a EntityProfileDTO"
    unfolding loop_EntityProfileDTO_def by (rule field_loop_error [OF ne st])
  show ?thesis
    by (simp add: u st l Unmarshal_EntityProfileDTO_def)
qed

theorem C4_variant_bad_wire_type_witness:
  "((8::nat) = 8 \<or> (8::nat) = 9) \<and> WireVarint \<noteq> WireBytes
   \<and> DecodeVarint [64, 1] = Some (64, [1]) \<and> drop_bit 3 (64::nat) = 8
   \<and> (64::nat) AND 7 = WireVarint
   \<and> EntityProfileDTO_OneofUnmarshaler (new_EntityProfileDTO :: unit EntityProfileDTO)
        8 WireVarint [1]
      = (True, Some ErrInternalBadWireType, new_EntityProfileDTO, [1])
   \<and> Unmarshal_EntityProfileDTO (\<lambda>bs. Inr ()) [64, 1] = Inl MALFORMED_VARIANT"
proof -
  have h1: "(8::nat) = 8 \<or> (8::nat) = 9" by simp
  have h2: "WireVarint \<noteq> WireBytes" by (simp add: WireVarint_def WireBytes_def)
  have h3: "DecodeVarint [64, 1] = Some (64, [1])" by simp
  have h4: "drop_bit 3 (64::nat) = 8" by (simp add: drop_bit_eq_div)
  have h5: "(64::nat) AND 7 = WireVarint" by (simp add: WireVarint_def and_nat_numerals)
  from C4_variant_bad_wire_type [OF h1 h2 h3 h4 h5,
      where m = "new_EntityProfileDTO :: unit EntityProfileDTO" and decP = "\<lambda>bs. Inr ()"]
  show ?thesis using h1 h2 h3 h4 h5 by simp
qed

text \<open>
  C7, as stated: with a payload of an unexpected type in the union, the encoding path
  returns an error and does not crash.  This fails for the oneof sizer, which is part
  of that path: it panics.
\<close>

theorem C7_sizer_panics_counterexample:
  "EntityProfileDTO_OneofSizer
     ((new_EntityProfileDTO :: unit EntityProfileDTO)
        \<lparr>VMOrPMProfileData := Some (Other_type ''T'')\<rparr>)
   = Panics ''proto: unexpected type T in oneof''"
  by (simp add: EntityProfileDTO_OneofSizer_def)

text \<open>
  C7, amended: with a payload of a type other than the two wrappers in the union, the
  oneof marshaler writes nothing and returns an error that names the type, and
  \<open>encode\<close> returns that error; the oneof sizer, which has no error result, panics.
\<close>

theorem C7_marshaler_error_sizer_panic:
  "EntityProfileDTO_OneofMarshaler (m\<lparr>VMOrPMProfileData := Some (Other_type T)\<rparr>) b
     = (b, Returns (Some (ErrUnexpectedType T)))
   \<and> Marshal_EntityProfileDTO encP (m\<lparr>VMOrPMProfileData := Some (Other_type T)\<rparr>)
     = Returns (Inl (ErrUnexpectedType T))
   \<and> EntityProfileDTO_OneofSizer (m\<lparr>VMOrPMProfileData := Some (Other_type T)\<rparr>)
     = Panics (''proto: unexpected type '' @ T @ '' in oneof'')"
  by (simp add: EntityProfileDTO_OneofMarshaler_def Marshal_EntityProfileDTO_def
      EntityProfileDTO_OneofSizer_def)





section \<open>Required fields\<close>

text \<open>
  C5: when the fields of a stream all parse, \<open>decode\<close> of an \<open>EntityProfileDTO\<close> or of
  a \<open>DeploymentProfileDTO\<close> fails with \<open>MISSING_REQUIRED_FIELD\<close>, naming the first
  required field whose number does not occur in the stream, and succeeds only when
  every required field occurs.  A stream without field 1 fails with
  \<open>MISSING_REQUIRED_FIELD ''id''\<close>.
\<close>

theorem C5_missing_required_field:
  "(loop_EntityProfileDTO decP new_EntityProfileDTO bs = Inr m
      \<and> field_numbers bs = Some ts \<longrightarrow>
    Unmarshal_EntityProfileDTO decP bs =
      (case first_missing required_fields_EntityProfileDTO ts of
         Some n \<Rightarrow> Inl (MISSING_REQUIRED_FIELD n)
       | None \<Rightarrow> Inr m))
   \<and> (loop_DeploymentProfileDTO decC new_DeploymentProfileDTO bs' = Inr d
       \<and> field_numbers bs' = Some ts' \<longrightarrow>
      Unmarshal_DeploymentProfileDTO decC bs' =
        (case first_missing required_fields_DeploymentProfileDTO ts' of
           Some n \<Rightarrow> Inl (MISSING_REQUIRED_FIELD n)
         | None \<Rightarrow> Inr d))"
proof (intro conjI impI)
  assume a: "loop_EntityProfileDTO decP new_EntityProfileDTO bs = Inr m
             \<and> field_numbers bs = Some ts"
  with loop_EntityProfileDTO_effect [of decP new_EntityProfileDTO bs m]
  have e: "loop_effect ts (new_EntityProfileDTO :: 'a EntityProfileDTO) m"
    unfolding loop_EntityProfileDTO_def by auto
  have n: "EntityProfileDTO.Id (new_EntityProfileDTO :: 'a EntityProfileDTO) = None"
    "DisplayName (new_EntityProfileDTO :: 'a EntityProfileDTO) = None"
    "EntityType (new_EntityProfileDTO :: 'a EntityProfileDTO) = None"
    by (simp_all add: new_EntityProfileDTO_def)
  from e n have p: "EntityProfileDTO.Id m = None \<longleftrightarrow> 1 \<notin> set ts"
    "DisplayName m = None \<longleftrightarrow> 2 \<notin> set ts" "EntityType m = None \<longleftrightarrow> 3 \<notin> set ts"
    by (simp_all add: loop_effect_def)
  from a p show "Unmarshal_EntityProfileDTO decP bs =
      (case first_missing required_fields_EntityProfileDTO ts of
         Some n \<Rightarrow> Inl (MISSING_REQUIRED_FIELD n)
       | None \<Rightarrow> Inr m)"
    by (simp add: Unmarshal_EntityProfileDTO_def required_EntityProfileDTO_def
        first_missing_def required_fields_EntityProfileDTO_def)
next
  assume a: "loop_DeploymentProfileDTO decC new_DeploymentProfileDTO bs' = Inr d
             \<and> field_numbers bs' = Some ts'"
  with loop_DeploymentProfileDTO_effect [of decC new_DeploymentProfileDTO bs' d]
  have e: "loop_effect_D ts' (new_DeploymentProfileDTO :: 'b DeploymentProfileDTO) d"
    unfolding loop_DeploymentProfileDTO_def by auto
  have n: "DeploymentProfileDTO.Id (new_DeploymentProfileDTO :: 'b DeploymentProfileDTO) = None"
    "ProfileName (new_DeploymentProfileDTO :: 'b DeploymentProfileDTO) = None"
    by (simp_all add: new_DeploymentProfileDTO_def)
  from e n have p: "DeploymentProfileDTO.Id d = None \<longleftrightarrow> 1 \<notin> set ts'"
    "ProfileName d = None \<longleftrightarrow> 2 \<notin> set ts'"
    by (simp_all add: loop_effect_D_def)
  from a p show "Unmarshal_DeploymentProfileDTO decC bs' =
        (case first_missing required_fields_DeploymentProfileDTO ts' of
           Some n \<Rightarrow> Inl (MISSING_REQUIRED_FIELD n)
         | None \<Rightarrow> Inr d)"
    by (simp add: Unmarshal_DeploymentProfileDTO_def required_DeploymentProfileDTO_def
        first_missing_def required_fields_DeploymentProfileDTO_def)
qed

theorem C5_missing_required_field_witness:
  "loop_EntityProfileDTO (\<lambda>bs. Inr ()) new_EntityProfileDTO [18, 1, 98]
     = Inr (new_EntityProfileDTO\<lparr>DisplayName := Some ''b''\<rparr>)
   \<and> loop_DeploymentProfileDTO (\<lambda>bs. Inr ()) new_DeploymentProfileDTO [18, 1, 98]
     = Inr (new_DeploymentProfileDTO\<lparr>ProfileName := Some ''b''\<rparr>)
   \<and> field_numbers [18, 1, 98] = Some [2]
   \<and> Unmarshal_EntityProfileDTO (\<lambda>bs. Inr ()) [18, 1, 98]
     = (Inl (MISSING_REQUIRED_FIELD ''id'') :: error + unit EntityProfileDTO)
   \<and> Unmarshal_DeploymentProfileDTO (\<lambda>bs. Inr ()) [18, 1, 98]
     = (Inl (MISSING_REQUIRED_FIELD ''id'') :: error + unit DeploymentProfileDTO)"
proof -
  have h1: "loop_EntityProfileDTO (\<lambda>bs. Inr ()) new_EntityProfileDTO [18, 1, 98]
     = Inr ((new_EntityProfileDTO :: unit EntityProfileDTO)\<lparr>DisplayName := Some ''b''\<rparr>)"
    by code_simp
  have h2: "loop_DeploymentProfileDTO (\<lambda>bs. Inr ()) new_DeploymentProfileDTO [18, 1, 98]
     = Inr ((new_DeploymentProfileDTO :: unit DeploymentProfileDTO)\<lparr>ProfileName := Some ''b''\<rparr>)"
    by code_simp
  have h3: "field_numbers [18, 1, 98] = Some [2]"
    by code_simp
  have m1: "first_missing required_fields_EntityProfileDTO [2] = Some ''id''"
    by code_simp
  have m2: "first_missing required_fields_DeploymentProfileDTO [2] = Some ''id''"
    by code_simp
  from C5_missing_required_field
    [where decP = "\<lambda>bs. Inr ()" and bs = "[18, 1, 98]" and ts = "[2]"
       and m = "(new_EntityProfileDTO :: unit EntityProfileDTO)\<lparr>DisplayName := Some ''b''\<rparr>"
       and decC = "\<lambda>bs. Inr ()" and bs' = "[18, 1, 98]" and ts' = "[2]"
       and d = "(new_DeploymentProfileDTO :: unit DeploymentProfileDTO)
                  \<lparr>ProfileName := Some ''b''\<rparr>"]
    h1 h2 h3 m1 m2
  show ?thesis by simp
qed

end
